theory Spec2Isabelle
  imports Complex_Main
begin

section \<open>Values shared by the whole script\<close>

text \<open>
  The script \<^verbatim>\<open>blender_bash2_V2.py\<close> edits a Blender mesh from Python. Coordinates are
  Python floats; they are modelled as \<^typ>\<open>real\<close> (no rounding, no NaN, no infinity), every
  exception the Python can raise is a value of \<open>error\<close>, and a function that mutates the mesh
  returns the mesh it leaves behind together with its result or the exception raised.
\<close>

datatype error = ValueError | IndexError | ZeroDivisionError | RuntimeError

type_synonym vec3 = "real \<times> real \<times> real"
type_synonym row4 = "real \<times> real \<times> real \<times> real"
type_synonym mat4 = "row4 \<times> row4 \<times> row4 \<times> row4"

text \<open>
  \<^verbatim>\<open>matrix_world @ v.co\<close>: a 4x4 matrix applied to a 3D vector (mathutils extends the vector
  with w = 1 and returns the first three rows).
\<close>

fun row_dot :: "row4 \<Rightarrow> vec3 \<Rightarrow> real" where
  "row_dot (a, b, c, d) (x, y, z) = a * x + b * y + c * z + d"

fun mat_vec :: "mat4 \<Rightarrow> vec3 \<Rightarrow> vec3" where
  "mat_vec (r0, r1, r2, r3) v = (row_dot r0 v, row_dot r1 v, row_dot r2 v)"

text \<open>\<^verbatim>\<open>matrix_world.to_3x3() @ face.normal\<close>: the upper-left 3x3 block only.\<close>

fun row_dot3 :: "row4 \<Rightarrow> vec3 \<Rightarrow> real" where
  "row_dot3 (a, b, c, d) (x, y, z) = a * x + b * y + c * z"

fun mat3_vec :: "mat4 \<Rightarrow> vec3 \<Rightarrow> vec3" where
  "mat3_vec (r0, r1, r2, r3) v = (row_dot3 r0 v, row_dot3 r1 v, row_dot3 r2 v)"

text \<open>
  \<^verbatim>\<open>xs[i]\<close> on a Python list: an index from \<open>-len\<close> to \<open>len - 1\<close> is accepted (the negative
  ones read from the end), every other index raises IndexError.
\<close>

definition py_index :: "'a list \<Rightarrow> int \<Rightarrow> error + 'a" where
  "py_index xs i =
     (if 0 \<le> i \<and> i < int (length xs) then Inr (xs ! nat i)
      else if - int (length xs) \<le> i \<and> i < 0 then Inr (xs ! nat (int (length xs) + i))
      else Inl IndexError)"

text \<open>
  \<^verbatim>\<open>vec[coord_index]\<close> on a 3D vector. It is only reached after
  \<^verbatim>\<open>['X', 'Y', 'Z'][coord_index]\<close> has succeeded, so the index is in \<open>-3 .. 2\<close>.
\<close>

fun comp :: "vec3 \<Rightarrow> int \<Rightarrow> real" where
  "comp (x, y, z) i =
     (if i = 0 \<or> i = -3 then x else if i = 1 \<or> i = -2 then y else z)"

text \<open>Python's \<^verbatim>\<open>max\<close> and \<^verbatim>\<open>min\<close> over a sequence: ValueError when it is empty.\<close>

fun py_max :: "real list \<Rightarrow> error + real" where
  "py_max [] = Inl ValueError"
| "py_max (x # xs) = Inr (foldl (\<lambda>m y. if y > m then y else m) x xs)"

fun py_min :: "real list \<Rightarrow> error + real" where
  "py_min [] = Inl ValueError"
| "py_min (x # xs) = Inr (foldl (\<lambda>m y. if y < m then y else m) x xs)"

section \<open>The mesh\<close>

datatype mode = OBJECT | EDIT

text \<open>
  A loop is one corner of a face: the vertex it sits on (\<^verbatim>\<open>loop.vert.co\<close>, a local
  coordinate) and the UV stored on it (\<^verbatim>\<open>loop[uv_layer].uv\<close>).
\<close>

record loop =
  vert :: vec3
  uv :: "real \<times> real"

text \<open>
  A face is hidden, or it is visible and then selected or not: Blender deselects a face before
  it hides it and ignores every write to \<^verbatim>\<open>face.select\<close> on a hidden face, so a hidden face
  is never selected.
\<close>

datatype face_flags = Hidden | Visible bool

record face =
  loops :: "loop list"
  normal :: vec3
  flags :: face_flags
  face_material_index :: nat

text \<open>\<^verbatim>\<open>face.hide\<close> and \<^verbatim>\<open>face.select\<close>, read.\<close>

definition hide :: "face \<Rightarrow> bool" where
  "hide f = (flags f = Hidden)"

definition select :: "face \<Rightarrow> bool" where
  "select f = (flags f = Visible True)"

text \<open>\<^verbatim>\<open>face.select = b\<close>: without effect on a hidden face.\<close>

definition set_select :: "bool \<Rightarrow> face \<Rightarrow> face" where
  "set_select b f = (case flags f of Hidden \<Rightarrow> f | Visible _ \<Rightarrow> f\<lparr>flags := Visible b\<rparr>)"

record material =
  mat_name :: string
  use_nodes :: bool
  mat_image :: "string option"

record mesh_object =
  verts :: "vec3 list"
  faces :: "face list"
  matrix_world :: mat4
  mode :: mode
  material_slots :: "material option list"
  active_material_index :: nat
  uv_layers :: "string list"

text \<open>\<^verbatim>\<open>face.verts\<close>: the vertices of the corners, in order.\<close>

definition face_verts :: "face \<Rightarrow> vec3 list" where
  "face_verts f = map vert (loops f)"

section \<open>SelectionParams\<close>

record selection_params =
  type :: string
  coord :: int
  epsilon :: real
  normal_direction :: int

section \<open>FaceSelector.select\_faces\_by\_criteria\<close>

text \<open>\<^verbatim>\<open>for face in bm.faces: face.select = False\<close>\<close>

definition deselect_all :: "mesh_object \<Rightarrow> mesh_object" where
  "deselect_all obj = obj\<lparr>faces := map (set_select False) (faces obj)\<rparr>"

text \<open>\<^verbatim>\<open>axis_name = ['X', 'Y', 'Z'][coord_index]\<close>\<close>

definition axis_name :: "int \<Rightarrow> error + string" where
  "axis_name coord_index = py_index [''X'', ''Y'', ''Z''] coord_index"

text \<open>
  The body of the \<^verbatim>\<open>max_coord\<close> loop for one face: True when the face is marked selected
  (and the count incremented).
\<close>

definition marks_max :: "mat4 \<Rightarrow> int \<Rightarrow> real \<Rightarrow> int \<Rightarrow> real \<Rightarrow> face \<Rightarrow> bool" where
  "marks_max mw coord_index eps nd max_coord f =
     (let verts_world_coords = map (\<lambda>v. comp (mat_vec mw v) coord_index) (face_verts f) in
      if list_all (\<lambda>c. c \<ge> max_coord - eps) verts_world_coords then
        (if nd \<noteq> 0 then
           (let normal_world = mat3_vec mw (normal f) in
            if (nd > 0 \<and> comp normal_world coord_index > 0) \<or>
               (nd < 0 \<and> comp normal_world coord_index < 0)
            then True else False)
         else True)
      else False)"

definition marks_min :: "mat4 \<Rightarrow> int \<Rightarrow> real \<Rightarrow> int \<Rightarrow> real \<Rightarrow> face \<Rightarrow> bool" where
  "marks_min mw coord_index eps nd min_coord f =
     (let verts_world_coords = map (\<lambda>v. comp (mat_vec mw v) coord_index) (face_verts f) in
      if list_all (\<lambda>c. c \<le> min_coord + eps) verts_world_coords then
        (if nd \<noteq> 0 then
           (let normal_world = mat3_vec mw (normal f) in
            if (nd > 0 \<and> comp normal_world coord_index > 0) \<or>
               (nd < 0 \<and> comp normal_world coord_index < 0)
            then True else False)
         else True)
      else False)"

text \<open>
  \<^verbatim>\<open>for face in bm.faces: if ...: face.select = True; selected_count += 1\<close>, with the
  running count as an accumulator. The count is incremented whether or not the write to
  \<^verbatim>\<open>face.select\<close> had an effect.
\<close>

fun select_loop :: "(face \<Rightarrow> bool) \<Rightarrow> face list \<Rightarrow> nat \<Rightarrow> face list \<times> nat" where
  "select_loop marks [] selected_count = ([], selected_count)"
| "select_loop marks (f # fs) selected_count =
     (if marks f then
        (case select_loop marks fs (selected_count + 1) of
           (fs', n) \<Rightarrow> (set_select True f # fs', n))
      else
        (case select_loop marks fs selected_count of
           (fs', n) \<Rightarrow> (f # fs', n)))"

text \<open>
  Lines 318-394. \<^verbatim>\<open>bmesh.from_edit_mesh\<close> raises ValueError on a mesh that is not in edit mode,
  before anything is changed.
\<close>

definition select_faces_by_criteria ::
  "mesh_object \<Rightarrow> selection_params \<Rightarrow> mesh_object \<times> (error + nat)" where
  "select_faces_by_criteria obj sp =
     (if mode obj \<noteq> EDIT then (obj, Inl ValueError)
      else
      let bm = deselect_all obj;
          mw = matrix_world obj;
          selection_type = type sp;
          coord_index = coord sp;
          eps = epsilon sp;
          nd = normal_direction sp
      in case axis_name coord_index of
           Inl e \<Rightarrow> (bm, Inl e)
         | Inr _ \<Rightarrow>
             if selection_type = ''max_coord'' then
               (case py_max (map (\<lambda>v. comp (mat_vec mw v) coord_index) (verts bm)) of
                  Inl e \<Rightarrow> (bm, Inl e)
                | Inr max_coord \<Rightarrow>
                    (case select_loop (marks_max mw coord_index eps nd max_coord) (faces bm) 0 of
                       (fs, n) \<Rightarrow> (bm\<lparr>faces := fs\<rparr>, Inr n)))
             else if selection_type = ''min_coord'' then
               (case py_min (map (\<lambda>v. comp (mat_vec mw v) coord_index) (verts bm)) of
                  Inl e \<Rightarrow> (bm, Inl e)
                | Inr min_coord \<Rightarrow>
                    (case select_loop (marks_min mw coord_index eps nd min_coord) (faces bm) 0 of
                       (fs, n) \<Rightarrow> (bm\<lparr>faces := fs\<rparr>, Inr n)))
             else (bm, Inr 0))"

section \<open>UVProjector.project\_from\_view\_manual\<close>

text \<open>
  A camera object: its name, its world matrix and the fields of \<^verbatim>\<open>camera.data\<close> the projector
  reads (\<^verbatim>\<open>type\<close>, \<^verbatim>\<open>sensor_width\<close>, \<^verbatim>\<open>sensor_height\<close>, \<^verbatim>\<open>lens\<close>).
\<close>

datatype camera_type = PERSP | ORTHO | PANO

record camera =
  cam_name :: string
  cam_matrix_world :: mat4
  cam_type :: camera_type
  sensor_width :: real
  sensor_height :: real
  lens :: real

text \<open>
  Lines 252-261: for a perspective camera the field of view and the aspect ratio are computed
  once, before the loop. Python raises ZeroDivisionError on a float division by zero.
  \<open>Perspective fov aspect_ratio\<close> carries the two values into the loop; for any other camera type
  they are never computed.
\<close>

datatype projection = Perspective real real | Orthographic

definition camera_projection :: "camera \<Rightarrow> error + projection" where
  "camera_projection camera =
     (if cam_type camera = PERSP then
        (if 2 * lens camera = 0 then Inl ZeroDivisionError
         else if sensor_height camera = 0 then Inl ZeroDivisionError
         else
           (let fov = 2 * arctan (sensor_width camera / (2 * lens camera));
                aspect_ratio = sensor_width camera / sensor_height camera
            in Inr (Perspective fov aspect_ratio)))
      else Inr Orthographic)"

text \<open>
  Lines 273-291, the UV of one corner from its camera-space position \<^verbatim>\<open>vert_view\<close>: \<open>u\<close> is
  computed before \<open>v\<close>, each by a division that raises when the divisor is zero.
\<close>

fun vertex_uv :: "projection \<Rightarrow> vec3 \<Rightarrow> error + real \<times> real" where
  "vertex_uv (Perspective fov aspect_ratio) (x, y, z) =
     (if z < 0 then
        (let screen_x = x / - z;
             screen_y = y / - z;
             fov_factor = tan (fov / 2)
         in if 2 * fov_factor * aspect_ratio = 0 then Inl ZeroDivisionError
            else if 2 * fov_factor = 0 then Inl ZeroDivisionError
            else Inr (0.5 + screen_x / (2 * fov_factor * aspect_ratio),
                      0.5 + screen_y / (2 * fov_factor)))
      else Inr (0.5, 0.5))"
| "vertex_uv Orthographic (x, y, z) = Inr (0.5 + x / 10.0, 0.5 + y / 10.0)"

text \<open>
  Lines 264-294, \<^verbatim>\<open>for face in selected_faces: for loop in face.loops: ... loop[uv_layer].uv = (u, v)\<close>.
  The UVs are written one corner at a time: when a corner raises, the corners before it keep
  their new UV and the others are untouched. The selected faces are visited in mesh order,
  the others are skipped.
\<close>

fun project_loops :: "(vec3 \<Rightarrow> error + real \<times> real) \<Rightarrow> loop list \<Rightarrow> loop list \<times> error option" where
  "project_loops g [] = ([], None)"
| "project_loops g (l # ls) =
     (case g (vert l) of
        Inl e \<Rightarrow> (l # ls, Some e)
      | Inr uv_new \<Rightarrow>
          (case project_loops g ls of (ls', r) \<Rightarrow> (l\<lparr>uv := uv_new\<rparr> # ls', r)))"

fun project_faces :: "(vec3 \<Rightarrow> error + real \<times> real) \<Rightarrow> face list \<Rightarrow> face list \<times> error option" where
  "project_faces g [] = ([], None)"
| "project_faces g (f # fs) =
     (if select f then
        (case project_loops g (loops f) of
           (ls, Some e) \<Rightarrow> (f\<lparr>loops := ls\<rparr> # fs, Some e)
         | (ls, None) \<Rightarrow>
             (case project_faces g fs of (fs', r) \<Rightarrow> (f\<lparr>loops := ls\<rparr> # fs', r)))
      else
        (case project_faces g fs of (fs', r) \<Rightarrow> (f # fs', r)))"

text \<open>
  \<^verbatim>\<open>bm.loops.layers.uv.verify()\<close>: the UV layer is created when the mesh has none (Blender calls
  it UVMap, the name the script also uses).
\<close>

definition DEFAULT_UV_MAP_NAME :: string where
  "DEFAULT_UV_MAP_NAME = ''UVMap''"

definition uv_verify :: "mesh_object \<Rightarrow> mesh_object" where
  "uv_verify obj = (if uv_layers obj = [] then obj\<lparr>uv_layers := [DEFAULT_UV_MAP_NAME]\<rparr> else obj)"

text \<open>
  Lines 220-299. \<^verbatim>\<open>cam_matrix_world.inverted()\<close> belongs to mathutils: it is the parameter
  \<open>inverted\<close>, which gives None where mathutils raises ValueError (no inverse). Without a
  selected face the function returns False and writes nothing.
\<close>

definition project_from_view_manual ::
  "(mat4 \<Rightarrow> mat4 option) \<Rightarrow> mesh_object \<Rightarrow> camera \<Rightarrow> mesh_object \<times> (error + bool)" where
  "project_from_view_manual inverted obj0 camera =
     (let obj = uv_verify (if mode obj0 \<noteq> EDIT then obj0\<lparr>mode := EDIT\<rparr> else obj0) in
      case inverted (cam_matrix_world camera) of
        None \<Rightarrow> (obj, Inl ValueError)
      | Some cam_matrix_world_inv \<Rightarrow>
          if filter select (faces obj) = [] then (obj, Inr False)
          else
            (case camera_projection camera of
               Inl e \<Rightarrow> (obj, Inl e)
             | Inr pr \<Rightarrow>
                 (case project_faces
                         (\<lambda>co. vertex_uv pr (mat_vec cam_matrix_world_inv (mat_vec (matrix_world obj) co)))
                         (faces obj) of
                    (fs, Some e) \<Rightarrow> (obj\<lparr>faces := fs\<rparr>, Inl e)
                  | (fs, None) \<Rightarrow> (obj\<lparr>faces := fs\<rparr>, Inr True))))"

section \<open>The scene, the configuration and the pipeline driver\<close>

text \<open>
  \<^verbatim>\<open>CameraConfig\<close> (lines 97-105). The material index is a slot number, so a natural number.
\<close>

record camera_config =
  name :: string
  location :: vec3
  rotation :: vec3
  selection_params :: selection_params
  material_index :: nat
  texture_path :: string

text \<open>
  The Blender side. \<open>world\<close> is everything the script can change apart from the mesh it edits:
  the other objects of the scene (each with a flag: True when \<^verbatim>\<open>select_all\<close> reaches it, False
  when it is hidden or unselectable), the active scene camera, the loaded images
  (\<^verbatim>\<open>bpy.data.images\<close>, by file path), the dictionary \<^verbatim>\<open>self.cameras\<close> of the mapper, the files
  exported, and \<open>calls\<close>, the operators and steps the script has run so far, in order. The mesh
  under edit is a Python reference in the script; here it travels beside the world as a pair.

  \<open>blender\<close> is what the script only reads or asks for: which paths exist
  (\<^verbatim>\<open>os.path.exists\<close>), what importing a PLY file adds to the scene or that the import raises,
  the world matrix Blender gives a camera placed at a location with a rotation, whether
  \<^verbatim>\<open>materials.append\<close> still accepts a slot on a mesh that has \<open>n\<close> of them, whether an image file
  loads, the matrix inverse of mathutils, and whether the glTF export succeeds or raises.
\<close>

datatype scene_object = MeshObject mesh_object | CameraObject camera | OtherObject string

datatype event =
    DeleteAll
  | PlyImport string
  | CameraAdd string
  | UVLayerNew
  | ProcessCamera string
  | SetSceneCamera string
  | ModeSet mode
  | SelectFaces
  | SetupMaterial nat
  | SlotAssign nat
  | ProjectUV string
  | ExportGltf string

record world =
  objects :: "(bool \<times> scene_object) list"
  scene_camera :: "camera option"
  images :: "string list"
  cameras :: "string \<rightharpoonup> camera"
  exported :: "string list"
  calls :: "event list"

record blender =
  path_exists :: "string \<Rightarrow> bool"
  ply_import :: "string \<Rightarrow> error + mesh_object list"
  camera_matrix :: "vec3 \<Rightarrow> vec3 \<Rightarrow> mat4"
  materials_append :: "nat \<Rightarrow> bool"
  images_load :: "string \<Rightarrow> bool"
  matrix_inverted :: "mat4 \<Rightarrow> mat4 option"
  export_gltf :: "string \<Rightarrow> bool"

definition record_call :: "event \<Rightarrow> world \<Rightarrow> world" where
  "record_call e w = w\<lparr>calls := calls w @ [e]\<rparr>"

definition DEFAULT_MATERIAL_BASENAME :: string where
  "DEFAULT_MATERIAL_BASENAME = ''Material''"

text \<open>\<^verbatim>\<open>CameraConfig.validate\<close>, lines 120-125.\<close>

definition validate :: "blender \<Rightarrow> camera_config \<Rightarrow> bool" where
  "validate env config = (if \<not> path_exists env (texture_path config) then False else True)"

text \<open>
  \<^verbatim>\<open>BlenderHelper.add_camera\<close>, lines 132-145. A new Blender camera is a perspective camera with
  a 36 x 24 mm sensor and a 50 mm lens.
\<close>

definition add_camera :: "blender \<Rightarrow> string \<Rightarrow> vec3 \<Rightarrow> vec3 \<Rightarrow> world \<Rightarrow> camera \<times> world" where
  "add_camera env nm loc rot w =
     (let camera = \<lparr>cam_name = nm, cam_matrix_world = camera_matrix env loc rot,
                     cam_type = PERSP, sensor_width = 36, sensor_height = 24, lens = 50\<rparr>
      in (camera, record_call (CameraAdd nm) (w\<lparr>objects := objects w @ [(True, CameraObject camera)]\<rparr>)))"

text \<open>
  \<^verbatim>\<open>BlenderHelper.setup_material_with_texture\<close>, lines 148-213. The first loop,
  \<^verbatim>\<open>while len(obj.material_slots) <= material_index: obj.data.materials.append(None)\<close>, is
  outside every \<^verbatim>\<open>try\<close> of the function: when Blender refuses one more slot the exception
  leaves the function, with the slots appended so far.
\<close>

function grow_slots :: "blender \<Rightarrow> material option list \<Rightarrow> nat \<Rightarrow> material option list \<times> error option" where
  "grow_slots env slots idx =
     (if length slots \<le> idx then
        (if materials_append env (length slots) then grow_slots env (slots @ [None]) idx
         else (slots, Some RuntimeError))
      else (slots, None))"
  by pat_completeness auto
termination
  by (relation "measure (\<lambda>(env, slots, idx). idx + 1 - length slots)") auto

text \<open>
  Lines 185-211: the image already loaded from the same path is reused, otherwise it is loaded;
  a failure to load is caught by the \<^verbatim>\<open>try\<close> around these lines and logged.
\<close>

definition load_texture :: "blender \<Rightarrow> string \<Rightarrow> world \<Rightarrow> world \<times> (error + string)" where
  "load_texture env path w =
     (if path \<in> set (images w) then (w, Inr path)
      else if images_load env path then (w\<lparr>images := images w @ [path]\<rparr>, Inr path)
      else (w, Inl RuntimeError))"

text \<open>
  After the slots: the material of the slot is reused and renamed or a new one is created,
  its nodes are rebuilt, and the texture is attached unless loading it failed.
\<close>

definition setup_material_with_texture ::
  "blender \<Rightarrow> nat \<Rightarrow> string \<Rightarrow> string \<Rightarrow> mesh_object \<times> world
     \<Rightarrow> (mesh_object \<times> world) \<times> error option" where
  "setup_material_with_texture env idx path material_name st =
     (case st of (obj, w) \<Rightarrow>
        (case grow_slots env (material_slots obj) idx of
           (slots, Some e) \<Rightarrow> ((obj\<lparr>material_slots := slots\<rparr>, w), Some e)
         | (slots, None) \<Rightarrow>
             (let mat = (case slots ! idx of
                           Some m \<Rightarrow> m\<lparr>mat_name := material_name\<rparr>
                         | None \<Rightarrow> \<lparr>mat_name = material_name, use_nodes = False, mat_image = None\<rparr>);
                  mat = mat\<lparr>use_nodes := True, mat_image := None\<rparr>
              in case load_texture env path w of
                   (w', Inr img) \<Rightarrow>
                     ((obj\<lparr>material_slots := slots[idx := Some (mat\<lparr>mat_image := Some img\<rparr>)]\<rparr>, w'), None)
                 | (w', Inl e) \<Rightarrow>
                     ((obj\<lparr>material_slots := slots[idx := Some mat]\<rparr>, w'), None))))"

text \<open>
  \<^verbatim>\<open>bpy.ops.object.material_slot_assign()\<close>: the selected faces get the active material slot.
\<close>

definition material_slot_assign :: "mesh_object \<Rightarrow> mesh_object" where
  "material_slot_assign obj =
     obj\<lparr>faces := map (\<lambda>f. if select f then f\<lparr>face_material_index := active_material_index obj\<rparr> else f)
                        (faces obj)\<rparr>"

text \<open>
  \<^verbatim>\<open>TextureMapper.process_camera_view\<close>, lines 491-535. \<open>process_camera_view_try\<close> is the body of
  the \<^verbatim>\<open>try\<close>, with the exception it may end in; \<open>process_camera_view\<close> adds the
  \<^verbatim>\<open>except Exception: return False\<close>. Each step is entered in \<open>calls\<close> when it starts.
\<close>

definition process_camera_view_try ::
  "blender \<Rightarrow> camera_config \<Rightarrow> mesh_object \<times> world \<Rightarrow> (mesh_object \<times> world) \<times> (error + bool)" where
  "process_camera_view_try env config st =
     (case st of (obj, w0) \<Rightarrow>
        (let w = record_call (ProcessCamera (name config)) w0 in
         case cameras w (name config) of
           None \<Rightarrow> ((obj, w), Inr False)
         | Some camera \<Rightarrow>
             (let w = record_call (SetSceneCamera (name config)) (w\<lparr>scene_camera := Some camera\<rparr>);
                  obj = obj\<lparr>mode := EDIT\<rparr>;
                  w = record_call (ModeSet EDIT) w;
                  w = record_call SelectFaces w
              in case select_faces_by_criteria obj (selection_params config) of
                   (obj, Inl e) \<Rightarrow> ((obj, w), Inl e)
                 | (obj, Inr selected_count) \<Rightarrow>
                     if selected_count = 0 then ((obj, w), Inr False)
                     else
                       (let material_name = DEFAULT_MATERIAL_BASENAME @ ''_'' @ name config;
                            w = record_call (SetupMaterial (material_index config)) w
                        in case setup_material_with_texture env (material_index config)
                                  (texture_path config) material_name (obj, w) of
                             ((obj, w), Some e) \<Rightarrow> ((obj, w), Inl e)
                           | ((obj, w), None) \<Rightarrow>
                               (let obj = obj\<lparr>active_material_index := material_index config\<rparr>;
                                    w = record_call (SlotAssign (material_index config)) w;
                                    obj = material_slot_assign obj;
                                    w = record_call (ProjectUV (name config)) w
                                in case project_from_view_manual (matrix_inverted env) obj camera of
                                     (obj, Inl e) \<Rightarrow> ((obj, w), Inl e)
                                   | (obj, Inr _) \<Rightarrow> ((obj, w), Inr True))))))"

definition process_camera_view ::
  "blender \<Rightarrow> camera_config \<Rightarrow> mesh_object \<times> world \<Rightarrow> (mesh_object \<times> world) \<times> bool" where
  "process_camera_view env config st =
     (case process_camera_view_try env config st of
        (st', Inr ok) \<Rightarrow> (st', ok)
      | (st', Inl e) \<Rightarrow> (st', False))"

text \<open>\<^verbatim>\<open>TextureMapper.validate_configs\<close>, lines 433-444.\<close>

fun validate_loop :: "blender \<Rightarrow> camera_config list \<Rightarrow> bool" where
  "validate_loop env [] = True"
| "validate_loop env (config # configs) =
     (if \<not> validate env config then False else validate_loop env configs)"

definition validate_configs :: "blender \<Rightarrow> string \<Rightarrow> camera_config list \<Rightarrow> bool" where
  "validate_configs env input_ply configs =
     (if \<not> path_exists env input_ply then False else validate_loop env configs)"

text \<open>
  \<^verbatim>\<open>TextureMapper.setup_scene\<close>, lines 446-489: select all and delete (an object that is hidden
  or unselectable stays), import the PLY file, add one camera per configuration, take the
  first mesh object of the scene, which may be one that stayed, and make sure it has a UV
  layer. An exception (here: of the import) is caught and gives None.
\<close>

fun add_cameras :: "blender \<Rightarrow> camera_config list \<Rightarrow> world \<Rightarrow> world" where
  "add_cameras env [] w = w"
| "add_cameras env (config # configs) w =
     (case add_camera env (name config) (location config) (rotation config) w of
        (camera, w') \<Rightarrow> add_cameras env configs (w'\<lparr>cameras := (cameras w')(name config \<mapsto> camera)\<rparr>))"

fun first_mesh :: "(bool \<times> scene_object) list \<Rightarrow> (mesh_object \<times> (bool \<times> scene_object) list) option" where
  "first_mesh [] = None"
| "first_mesh ((s, MeshObject m) # os) = Some (m, os)"
| "first_mesh (ob # os) = (case first_mesh os of None \<Rightarrow> None | Some (m, os') \<Rightarrow> Some (m, ob # os'))"

definition setup_scene ::
  "blender \<Rightarrow> string \<Rightarrow> camera_config list \<Rightarrow> world \<Rightarrow> world \<times> mesh_object option" where
  "setup_scene env input_ply configs w0 =
     (let w = record_call DeleteAll (w0\<lparr>objects := filter (\<lambda>(s, ob). \<not> s) (objects w0)\<rparr>);
          w = record_call (PlyImport input_ply) w
      in case ply_import env input_ply of
           Inl e \<Rightarrow> (w, None)
         | Inr imported \<Rightarrow>
             (let w = add_cameras env configs (w\<lparr>objects := objects w @ map (\<lambda>m. (True, MeshObject m)) imported\<rparr>)
              in case first_mesh (objects w) of
                   None \<Rightarrow> (w, None)
                 | Some (mesh_obj, others) \<Rightarrow>
                     (let w = w\<lparr>objects := others\<rparr> in
                      if uv_layers mesh_obj = []
                      then (record_call UVLayerNew w, Some (mesh_obj\<lparr>uv_layers := [DEFAULT_UV_MAP_NAME]\<rparr>))
                      else (w, Some mesh_obj))))"

text \<open>
  \<^verbatim>\<open>TextureMapper.process\<close>, lines 537-569. The result of \<^verbatim>\<open>process_camera_view\<close> is dropped by
  the loop. The export is inside the \<^verbatim>\<open>try\<close>: when it raises, \<^verbatim>\<open>process\<close> returns False.
\<close>

fun process_cameras :: "blender \<Rightarrow> camera_config list \<Rightarrow> mesh_object \<times> world \<Rightarrow> mesh_object \<times> world" where
  "process_cameras env [] st = st"
| "process_cameras env (config # configs) st =
     process_cameras env configs (fst (process_camera_view env config st))"

definition process ::
  "blender \<Rightarrow> string \<Rightarrow> camera_config list \<Rightarrow> string \<Rightarrow> world \<Rightarrow> (mesh_object option \<times> world) \<times> bool" where
  "process env input_ply configs output_glb w =
     (if \<not> validate_configs env input_ply configs then ((None, w), False)
      else
        (case setup_scene env input_ply configs w of
           (w, None) \<Rightarrow> ((None, w), False)
         | (w, Some mesh_obj) \<Rightarrow>
             (case process_cameras env configs (mesh_obj, w) of
                (obj, w) \<Rightarrow>
                  (let obj = obj\<lparr>mode := OBJECT\<rparr>;
                       w = record_call (ModeSet OBJECT) w;
                       w = record_call (ExportGltf output_glb) w
                   in if export_gltf env output_glb
                      then ((Some obj, w\<lparr>exported := exported w @ [output_glb]\<rparr>), True)
                      else ((Some obj, w), False)))))"

text \<open>
  \<^verbatim>\<open>main\<close>, lines 625-662, from the point where the arguments are parsed: \<open>loaded\<close> is what
  \<^verbatim>\<open>ConfigManager.load_camera_configs\<close> returned or raised, the result is the exit code.
\<close>

definition main ::
  "blender \<Rightarrow> string \<Rightarrow> error + camera_config list \<Rightarrow> string \<Rightarrow> world \<Rightarrow> (mesh_object option \<times> world) \<times> int" where
  "main env input_ply loaded output_glb w =
     (case loaded of
        Inl e \<Rightarrow> ((None, w), 1)
      | Inr camera_configs \<Rightarrow>
          (case process env input_ply camera_configs output_glb w of
             (st, success) \<Rightarrow> (st, if success then 0 else 1)))"

section \<open>Vocabulary of the specification\<close>

text \<open>
  The specification speaks of world-space coordinates, of the global extremum over all
  vertices of the mesh, of candidate faces and of the normal filter. These definitions follow
  its words; the theorems compare them with what the code computes.
\<close>

text \<open>The axis indices \<^verbatim>\<open>['X', 'Y', 'Z'][coord_index]\<close> accepts.\<close>

definition valid_axis :: "int \<Rightarrow> bool" where
  "valid_axis c = (-3 \<le> c \<and> c < 3)"

definition spec_world_coord :: "mesh_object \<Rightarrow> int \<Rightarrow> vec3 \<Rightarrow> real" where
  "spec_world_coord obj axis v = comp (mat_vec (matrix_world obj) v) axis"

definition spec_global_max :: "mesh_object \<Rightarrow> int \<Rightarrow> real" where
  "spec_global_max obj axis = Max (spec_world_coord obj axis ` set (verts obj))"

definition spec_global_min :: "mesh_object \<Rightarrow> int \<Rightarrow> real" where
  "spec_global_min obj axis = Min (spec_world_coord obj axis ` set (verts obj))"

definition spec_normal_component :: "mesh_object \<Rightarrow> int \<Rightarrow> face \<Rightarrow> real" where
  "spec_normal_component obj axis f = comp (mat3_vec (matrix_world obj) (normal f)) axis"

definition spec_normal_filter :: "mesh_object \<Rightarrow> selection_params \<Rightarrow> face \<Rightarrow> bool" where
  "spec_normal_filter obj sp f =
     (normal_direction sp = 0 \<or>
      (normal_direction sp > 0 \<and> spec_normal_component obj (coord sp) f > 0) \<or>
      (normal_direction sp < 0 \<and> spec_normal_component obj (coord sp) f < 0))"

definition spec_near_max :: "mesh_object \<Rightarrow> selection_params \<Rightarrow> face \<Rightarrow> bool" where
  "spec_near_max obj sp f =
     (\<forall>v \<in> set (face_verts f).
        spec_world_coord obj (coord sp) v \<ge> spec_global_max obj (coord sp) - epsilon sp)"

definition spec_near_min :: "mesh_object \<Rightarrow> selection_params \<Rightarrow> face \<Rightarrow> bool" where
  "spec_near_min obj sp f =
     (\<forall>v \<in> set (face_verts f).
        spec_world_coord obj (coord sp) v \<le> spec_global_min obj (coord sp) + epsilon sp)"

text \<open>
  The face list in which \<open>P\<close> decides the selection of every visible face; the hidden faces
  are as they were.
\<close>

definition mark_faces :: "(face \<Rightarrow> bool) \<Rightarrow> face list \<Rightarrow> face list" where
  "mark_faces P fs = map (\<lambda>f. f\<lparr>flags := (if hide f then Hidden else Visible (P f))\<rparr>) fs"

text \<open>What the selector leaves on face \<open>f\<close> when it returns, for every selection type.\<close>

definition spec_selected :: "mesh_object \<Rightarrow> selection_params \<Rightarrow> face \<Rightarrow> bool" where
  "spec_selected obj sp f =
     (if type sp = ''max_coord'' then spec_near_max obj sp f \<and> spec_normal_filter obj sp f
      else if type sp = ''min_coord'' then spec_near_min obj sp f \<and> spec_normal_filter obj sp f
      else False)"

definition spec_near :: "mesh_object \<Rightarrow> selection_params \<Rightarrow> face \<Rightarrow> bool" where
  "spec_near obj sp f =
     (if type sp = ''max_coord'' then spec_near_max obj sp f
      else if type sp = ''min_coord'' then spec_near_min obj sp f
      else False)"

text \<open>
  The projection of the specification: field of view, aspect ratio, camera-space position and
  the perspective UV; \<open>well_formed_camera\<close> is its invariant of a perspective camera.
\<close>

definition spec_fov :: "camera \<Rightarrow> real" where
  "spec_fov camera = 2 * arctan (sensor_width camera / (2 * lens camera))"

definition spec_aspect :: "camera \<Rightarrow> real" where
  "spec_aspect camera = sensor_width camera / sensor_height camera"

definition spec_view_pos :: "mat4 \<Rightarrow> mesh_object \<Rightarrow> vec3 \<Rightarrow> vec3" where
  "spec_view_pos world_to_camera obj co = mat_vec world_to_camera (mat_vec (matrix_world obj) co)"

fun spec_persp_uv :: "camera \<Rightarrow> vec3 \<Rightarrow> real \<times> real" where
  "spec_persp_uv camera (x, y, z) =
     (0.5 + (x / - z) / (2 * tan (spec_fov camera / 2) * spec_aspect camera),
      0.5 + (y / - z) / (2 * tan (spec_fov camera / 2)))"

definition view_z :: "vec3 \<Rightarrow> real" where
  "view_z p = (case p of (x, y, z) \<Rightarrow> z)"

definition well_formed_camera :: "camera \<Rightarrow> bool" where
  "well_formed_camera camera =
     (cam_type camera = PERSP \<and> lens camera > 0 \<and> sensor_width camera > 0 \<and> sensor_height camera > 0)"

definition camera_uv :: "camera \<Rightarrow> vec3 \<Rightarrow> real \<times> real" where
  "camera_uv camera p = (if view_z p < 0 then spec_persp_uv camera p else (0.5, 0.5))"

text \<open>
  The three per-camera steps of the specification, read off the calls: Select is the call of
  the face selector, Bind the material setup and the slot assignment, Project the call of the
  UV projector. \<open>camera_runs\<close> lists the cameras whose processing was started, \<open>camera_calls\<close>
  is the full sequence of one camera.
\<close>

datatype step = Select | Project | Bind

fun step_of :: "event \<Rightarrow> step option" where
  "step_of SelectFaces = Some Select"
| "step_of (SetupMaterial i) = Some Bind"
| "step_of (SlotAssign i) = Some Bind"
| "step_of (ProjectUV n) = Some Project"
| "step_of e = None"

definition steps :: "event list \<Rightarrow> step list" where
  "steps evs = remdups_adj (List.map_filter step_of evs)"

fun camera_runs :: "event list \<Rightarrow> string list" where
  "camera_runs [] = []"
| "camera_runs (ProcessCamera n # evs) = n # camera_runs evs"
| "camera_runs (e # evs) = camera_runs evs"

definition camera_calls :: "camera_config \<Rightarrow> event list" where
  "camera_calls config =
     [ProcessCamera (name config), SetSceneCamera (name config), ModeSet EDIT, SelectFaces,
      SetupMaterial (material_index config), SlotAssign (material_index config),
      ProjectUV (name config)]"

definition new_calls :: "world \<Rightarrow> world \<Rightarrow> event list" where
  "new_calls w w' = drop (length (calls w)) (calls w')"

text \<open>
  The material setup raises exactly when Blender refuses one of the slots the list still needs
  to reach the index: a mesh with \<open>n\<close> slots, for some \<open>n\<close> from the present number of slots up
  to the index.
\<close>

definition slots_refused :: "blender \<Rightarrow> mesh_object \<Rightarrow> nat \<Rightarrow> bool" where
  "slots_refused env obj idx =
     (\<exists>n. length (material_slots obj) \<le> n \<and> n \<le> idx \<and> \<not> materials_append env n)"

text \<open>The world at the moment the selector is called for a camera that was found.\<close>

definition at_select :: "camera_config \<Rightarrow> camera \<Rightarrow> world \<Rightarrow> world" where
  "at_select config camera w =
     record_call SelectFaces (record_call (ModeSet EDIT)
       (record_call (SetSceneCamera (name config))
         ((record_call (ProcessCamera (name config)) w)\<lparr>scene_camera := Some camera\<rparr>)))"

section \<open>Example data\<close>

text \<open>
  Three faces of the unit cube centred at the origin (top, bottom and the side facing +X),
  with all eight vertices, under the identity transform, in edit mode. \<open>cube_with\<close> takes the
  flags of the three faces; in \<open>cube\<close> the three faces are visible and the arguments are their
  selection state.
\<close>

definition identity_matrix :: mat4 where
  "identity_matrix = ((1, 0, 0, 0), (0, 1, 0, 0), (0, 0, 1, 0), (0, 0, 0, 1))"

definition quad :: "vec3 \<Rightarrow> vec3 \<Rightarrow> vec3 \<Rightarrow> vec3 \<Rightarrow> vec3 \<Rightarrow> face_flags \<Rightarrow> face" where
  "quad a b c d n fl =
     \<lparr>loops = map (\<lambda>v. \<lparr>vert = v, uv = (0, 0)\<rparr>) [a, b, c, d],
      normal = n, flags = fl, face_material_index = 0\<rparr>"

definition cube_faces :: "face_flags \<Rightarrow> face_flags \<Rightarrow> face_flags \<Rightarrow> face list" where
  "cube_faces st sb ss =
     [quad (-1/2, -1/2, 1/2) (1/2, -1/2, 1/2) (1/2, 1/2, 1/2) (-1/2, 1/2, 1/2) (0, 0, 1) st,
      quad (-1/2, -1/2, -1/2) (-1/2, 1/2, -1/2) (1/2, 1/2, -1/2) (1/2, -1/2, -1/2) (0, 0, -1) sb,
      quad (1/2, -1/2, -1/2) (1/2, 1/2, -1/2) (1/2, 1/2, 1/2) (1/2, -1/2, 1/2) (1, 0, 0) ss]"

definition cube_with :: "face_flags \<Rightarrow> face_flags \<Rightarrow> face_flags \<Rightarrow> mesh_object" where
  "cube_with st sb ss =
     \<lparr>verts = [(-1/2, -1/2, -1/2), (1/2, -1/2, -1/2), (1/2, 1/2, -1/2), (-1/2, 1/2, -1/2),
               (-1/2, -1/2, 1/2), (1/2, -1/2, 1/2), (1/2, 1/2, 1/2), (-1/2, 1/2, 1/2)],
      faces = cube_faces st sb ss,
      matrix_world = identity_matrix,
      mode = EDIT,
      material_slots = [],
      active_material_index = 0,
      uv_layers = [''UVMap'']\<rparr>"

definition cube :: "bool \<Rightarrow> bool \<Rightarrow> bool \<Rightarrow> mesh_object" where
  "cube st sb ss = cube_with (Visible st) (Visible sb) (Visible ss)"

definition params :: "string \<Rightarrow> real \<Rightarrow> int \<Rightarrow> selection_params" where
  "params t e nd = \<lparr>type = t, coord = 2, epsilon = e, normal_direction = nd\<rparr>"

text \<open>A mesh without vertices (and so without faces).\<close>

definition no_verts :: mesh_object where
  "no_verts = \<lparr>verts = [], faces = [], matrix_world = identity_matrix, mode = EDIT,
      material_slots = [], active_material_index = 0, uv_layers = []\<rparr>"

text \<open>
  A camera ten units above the origin, not rotated, looking down its local -Z axis, with the
  sensor and lens of the scenario in the specification; the inverse of its world matrix; and a
  mesh with one selected triangle that has a corner on the optical axis, a corner far to the
  side and a corner behind the camera.
\<close>

definition translation :: "vec3 \<Rightarrow> mat4" where
  "translation t = (case t of (tx, ty, tz) \<Rightarrow>
     ((1, 0, 0, tx), (0, 1, 0, ty), (0, 0, 1, tz), (0, 0, 0, 1)))"

definition camera_top :: camera where
  "camera_top = \<lparr>cam_name = ''Camera_Top'', cam_matrix_world = translation (0, 0, 10),
      cam_type = PERSP, sensor_width = 36, sensor_height = 24, lens = 50\<rparr>"

definition inverted_top :: "mat4 \<Rightarrow> mat4 option" where
  "inverted_top m = (if m = translation (0, 0, 10) then Some (translation (0, 0, -10)) else None)"

definition triangle :: "vec3 \<Rightarrow> vec3 \<Rightarrow> vec3 \<Rightarrow> (real \<times> real) \<Rightarrow> (real \<times> real) \<Rightarrow> (real \<times> real) \<Rightarrow> bool \<Rightarrow> face" where
  "triangle a b c ua ub uc sel =
     \<lparr>loops = [\<lparr>vert = a, uv = ua\<rparr>, \<lparr>vert = b, uv = ub\<rparr>, \<lparr>vert = c, uv = uc\<rparr>],
      normal = (0, 1, 0), flags = Visible sel, face_material_index = 0\<rparr>"

definition probe :: "(real \<times> real) \<Rightarrow> (real \<times> real) \<Rightarrow> (real \<times> real) \<Rightarrow> mesh_object" where
  "probe ua ub uc =
     \<lparr>verts = [(0, 0, 0), (100, 0, 0), (0, 0, 20), (1, 0, 0)],
      faces = [triangle (0, 0, 0) (100, 0, 0) (0, 0, 20) ua ub uc True,
               triangle (0, 0, 0) (1, 0, 0) (0, 0, 20) (0, 0) (0, 0) (0, 0) False],
      matrix_world = identity_matrix,
      mode = EDIT,
      material_slots = [],
      active_material_index = 0,
      uv_layers = [''UVMap'']\<rparr>"

text \<open>
  A Blender in which \<^verbatim>\<open>cube.ply\<close> holds the cube and \<^verbatim>\<open>top.png\<close> is a readable image; the flag
  says whether the export succeeds. A mesh takes at most 32767 material slots. Its cameras are
  not rotated. Three configurations: an axis
  index out of range, the unimplemented type \<^verbatim>\<open>custom\<close>, and the top camera of the scenario.
\<close>

definition example_env :: "bool \<Rightarrow> blender" where
  "example_env export_ok =
     \<lparr>path_exists = (\<lambda>p. p = ''cube.ply'' \<or> p = ''top.png''),
      ply_import = (\<lambda>p. if p = ''cube.ply'' then Inr [cube False True True] else Inl RuntimeError),
      camera_matrix = (\<lambda>loc rot. translation loc),
      materials_append = (\<lambda>n. n < 32767),
      images_load = (\<lambda>p. p = ''top.png''),
      matrix_inverted = inverted_top,
      export_gltf = (\<lambda>p. export_ok)\<rparr>"

definition top_config :: "string \<Rightarrow> string \<Rightarrow> camera_config" where
  "top_config t tex =
     \<lparr>name = ''Camera_Top'', location = (0, 0, 10), rotation = (0, 0, 0),
      selection_params = params t (3/2) 1, material_index = 0, texture_path = tex\<rparr>"

definition start_world :: world where
  "start_world =
     \<lparr>objects = [(True, MeshObject no_verts), (True, OtherObject ''Light'')],
      scene_camera = None, images = [],
      cameras = Map.empty, exported = [], calls = []\<rparr>"


definition example_config :: "string \<Rightarrow> selection_params \<Rightarrow> camera_config" where
  "example_config nm sp =
     \<lparr>name = nm, location = (0, 0, 10), rotation = (0, 0, 0),
      selection_params = sp, material_index = 0, texture_path = ''top.png''\<rparr>"


definition example_configs :: "camera_config list" where
  "example_configs =
     [example_config ''Camera_A'' \<lparr>type = ''max_coord'', coord = 7, epsilon = 3/2, normal_direction = 1\<rparr>,
      example_config ''Camera_B'' (params ''custom'' (3/2) 1),
      top_config ''max_coord'' ''top.png'']"

section \<open>Properties of the face selector\<close>

lemma foldl_max: "foldl (\<lambda>m y. if y > m then y else m) x xs = Max (set (x # xs))"
proof (induction xs arbitrary: x)
  case Nil
  show ?case by simp
next
  case (Cons y ys)
  have "Max (set (x # y # ys)) = max (max x y) (Max (set (y # ys)))"
    by (simp add: max.assoc)
  also have "\<dots> = Max (set ((if y > x then y else x) # ys))"
    by (cases ys) (auto simp: max_def)
  finally show ?case using Cons.IH [of "if y > x then y else x"] by simp
qed

lemma foldl_min: "foldl (\<lambda>m y. if y < m then y else m) x xs = Min (set (x # xs))"
proof (induction xs arbitrary: x)
  case Nil
  show ?case by simp
next
  case (Cons y ys)
  have "Min (set (x # y # ys)) = min (min x y) (Min (set (y # ys)))"
    by (simp add: min.assoc)
  also have "\<dots> = Min (set ((if y < x then y else x) # ys))"
    by (cases ys) (auto simp: min_def)
  finally show ?case using Cons.IH [of "if y < x then y else x"] by simp
qed

lemma py_max_Max: "xs \<noteq> [] \<Longrightarrow> py_max xs = Inr (Max (set xs))"
  by (cases xs) (simp_all only: py_max.simps foldl_max, simp)

lemma py_min_Min: "xs \<noteq> [] \<Longrightarrow> py_min xs = Inr (Min (set xs))"
  by (cases xs) (simp_all only: py_min.simps foldl_min, simp)

lemma set_select_flags:
  "set_select b f = f\<lparr>flags := (if hide f then Hidden else Visible b)\<rparr>"
  by (cases "flags f") (simp_all add: set_select_def hide_def)

lemma select_set_select [simp]: "select (set_select b f) = (\<not> hide f \<and> b)"
  by (cases "flags f") (simp_all add: set_select_def hide_def select_def)

lemma hide_set_select [simp]: "hide (set_select b f) = hide f"
  by (cases "flags f") (simp_all add: set_select_def hide_def)

lemma loops_set_select [simp]: "loops (set_select b f) = loops f"
  by (cases "flags f") (simp_all add: set_select_def)

lemma normal_set_select [simp]: "normal (set_select b f) = normal f"
  by (cases "flags f") (simp_all add: set_select_def)

lemma set_select_twice [simp]: "set_select b (set_select c f) = set_select b f"
  by (cases "flags f") (simp_all add: set_select_def)

lemma hidden_not_selected: "hide f \<Longrightarrow> \<not> select f"
  by (simp add: hide_def select_def)

lemma select_loop_eq:
  "select_loop marks fs n =
     (map (\<lambda>f. if marks f then set_select True f else f) fs, n + length (filter marks fs))"
  by (induction fs arbitrary: n) auto

lemma axis_name_Inr: "(\<exists>s. axis_name c = Inr s) \<longleftrightarrow> (-3 \<le> c \<and> c < 3)"
  by (auto simp: axis_name_def py_index_def Let_def)

lemma axis_name_Inl: "axis_name c = Inl e \<longleftrightarrow> (e = IndexError \<and> \<not> (-3 \<le> c \<and> c < 3))"
  by (auto simp: axis_name_def py_index_def Let_def)

lemma marks_max_spec:
  "marks_max (matrix_world obj) (coord sp) (epsilon sp) (normal_direction sp)
      (spec_global_max obj (coord sp))
   = (\<lambda>f. spec_near_max obj sp f \<and> spec_normal_filter obj sp f)"
  by (auto simp: fun_eq_iff marks_max_def spec_near_max_def spec_normal_filter_def spec_world_coord_def
        spec_normal_component_def list_all_iff Let_def)

lemma marks_min_spec:
  "marks_min (matrix_world obj) (coord sp) (epsilon sp) (normal_direction sp)
      (spec_global_min obj (coord sp))
   = (\<lambda>f. spec_near_min obj sp f \<and> spec_normal_filter obj sp f)"
  by (auto simp: fun_eq_iff marks_min_def spec_near_min_def spec_normal_filter_def spec_world_coord_def
        spec_normal_component_def list_all_iff Let_def)

lemma spec_near_max_set_select [simp]: "spec_near_max obj sp (set_select b f) = spec_near_max obj sp f"
  by (simp add: spec_near_max_def face_verts_def)

lemma spec_near_min_set_select [simp]: "spec_near_min obj sp (set_select b f) = spec_near_min obj sp f"
  by (simp add: spec_near_min_def face_verts_def)

lemma spec_normal_filter_set_select [simp]:
  "spec_normal_filter obj sp (set_select b f) = spec_normal_filter obj sp f"
  by (simp add: spec_normal_filter_def spec_normal_component_def)

lemma select_loop_deselected:
  assumes "\<And>f b. marks (set_select b f) = marks f"
  shows "select_loop marks (map (set_select False) fs) 0
         = (mark_faces marks fs, length (filter marks fs))"
proof -
  have "map (\<lambda>f. if marks f then set_select True f else f) (map (set_select False) fs)
        = mark_faces marks fs"
    by (induction fs) (auto simp: mark_faces_def assms set_select_flags [symmetric])
  moreover have "filter marks (map (set_select False) fs) = map (set_select False) (filter marks fs)"
    by (induction fs) (auto simp: assms)
  ultimately show ?thesis
    by (simp add: select_loop_eq)
qed

lemma world_max:
  "verts obj \<noteq> [] \<Longrightarrow>
   py_max (map (\<lambda>v. comp (mat_vec (matrix_world obj) v) c) (verts obj)) = Inr (spec_global_max obj c)"
  by (simp add: py_max_Max spec_global_max_def spec_world_coord_def image_def)

lemma world_min:
  "verts obj \<noteq> [] \<Longrightarrow>
   py_min (map (\<lambda>v. comp (mat_vec (matrix_world obj) v) c) (verts obj)) = Inr (spec_global_min obj c)"
  by (simp add: py_min_Min spec_global_min_def spec_world_coord_def image_def)

lemma select_not_edit:
  assumes "mode obj \<noteq> EDIT"
  shows "select_faces_by_criteria obj sp = (obj, Inl ValueError)"
  using assms by (simp add: select_faces_by_criteria_def)

lemma select_max_result:
  assumes "mode obj = EDIT" "valid_axis (coord sp)" "type sp = ''max_coord''" "verts obj \<noteq> []"
  shows "select_faces_by_criteria obj sp =
    (obj\<lparr>faces := mark_faces (\<lambda>f. spec_near_max obj sp f \<and> spec_normal_filter obj sp f) (faces obj)\<rparr>,
     Inr (length (filter (\<lambda>f. spec_near_max obj sp f \<and> spec_normal_filter obj sp f) (faces obj))))"
proof -
  obtain s where s: "axis_name (coord sp) = Inr s"
    using assms(2) axis_name_Inr [of "coord sp"] by (auto simp: valid_axis_def)
  show ?thesis
    using assms(1,3,4)
    by (simp add: select_faces_by_criteria_def s deselect_all_def world_max
          select_loop_deselected marks_max_spec Let_def)
qed

lemma select_min_result:
  assumes "mode obj = EDIT" "valid_axis (coord sp)" "type sp = ''min_coord''" "verts obj \<noteq> []"
  shows "select_faces_by_criteria obj sp =
    (obj\<lparr>faces := mark_faces (\<lambda>f. spec_near_min obj sp f \<and> spec_normal_filter obj sp f) (faces obj)\<rparr>,
     Inr (length (filter (\<lambda>f. spec_near_min obj sp f \<and> spec_normal_filter obj sp f) (faces obj))))"
proof -
  obtain s where s: "axis_name (coord sp) = Inr s"
    using assms(2) axis_name_Inr [of "coord sp"] by (auto simp: valid_axis_def)
  show ?thesis
    using assms(1,3,4)
    by (simp add: select_faces_by_criteria_def s deselect_all_def world_min
          select_loop_deselected marks_min_spec Let_def)
qed

lemma select_other_result:
  assumes "mode obj = EDIT" "valid_axis (coord sp)"
    "type sp \<noteq> ''max_coord''" "type sp \<noteq> ''min_coord''"
  shows "select_faces_by_criteria obj sp = (deselect_all obj, Inr 0)"
proof -
  obtain s where s: "axis_name (coord sp) = Inr s"
    using assms(2) axis_name_Inr [of "coord sp"] by (auto simp: valid_axis_def)
  show ?thesis
    using assms(1,3,4) by (simp add: select_faces_by_criteria_def s Let_def)
qed

lemma select_bad_axis:
  assumes "mode obj = EDIT" "\<not> valid_axis (coord sp)"
  shows "select_faces_by_criteria obj sp = (deselect_all obj, Inl IndexError)"
proof -
  have "axis_name (coord sp) = Inl IndexError"
    using assms(2) by (simp add: axis_name_Inl valid_axis_def)
  then show ?thesis
    using assms(1) by (simp add: select_faces_by_criteria_def Let_def)
qed

lemma select_no_verts:
  assumes "mode obj = EDIT" "valid_axis (coord sp)"
    "type sp = ''max_coord'' \<or> type sp = ''min_coord''" "verts obj = []"
  shows "select_faces_by_criteria obj sp = (deselect_all obj, Inl ValueError)"
proof -
  obtain s where s: "axis_name (coord sp) = Inr s"
    using assms(2) axis_name_Inr [of "coord sp"] by (auto simp: valid_axis_def)
  show ?thesis
    using assms(1,3,4) by (auto simp: select_faces_by_criteria_def s deselect_all_def Let_def)
qed

lemma select_returns:
  assumes "select_faces_by_criteria obj sp = (obj', Inr n)"
  shows "mode obj = EDIT"
    and "valid_axis (coord sp)"
    and "type sp = ''max_coord'' \<or> type sp = ''min_coord'' \<Longrightarrow> verts obj \<noteq> []"
proof -
  show m: "mode obj = EDIT"
    using assms select_not_edit [of obj sp] by auto
  show v: "valid_axis (coord sp)"
    using assms select_bad_axis [OF m, of sp] by auto
  show "verts obj \<noteq> []" if "type sp = ''max_coord'' \<or> type sp = ''min_coord''"
    using assms select_no_verts [OF m v that] by auto
qed

lemma axis_name_2: "axis_name 2 = Inr ''Z''"
  by (simp add: axis_name_def py_index_def)

lemmas cube_simps = cube_def cube_with_def cube_faces_def quad_def identity_matrix_def params_def
  select_faces_by_criteria_def deselect_all_def set_select_def axis_name_2 marks_max_def marks_min_def
  face_verts_def Let_def

lemma cube_max_1: "select_faces_by_criteria (cube False True True) (params ''max_coord'' (3/2) 1)
   = (cube True False False, Inr 1)"
  by (simp add: cube_simps)

lemma hidden_top_max_1:
  "select_faces_by_criteria (cube_with Hidden (Visible True) (Visible True)) (params ''max_coord'' (3/2) 1)
   = (cube_with Hidden (Visible False) (Visible False), Inr 1)"
  by (simp add: cube_simps)

lemma mark_faces_nth:
  "i < length fs \<Longrightarrow> select (mark_faces P fs ! i) = (\<not> hide (fs ! i) \<and> P (fs ! i))"
  by (simp add: mark_faces_def select_def hide_def)

lemma length_mark_faces [simp]: "length (mark_faces P fs) = length fs"
  by (simp add: mark_faces_def)


lemma filter_select_deselect: "filter select (faces (deselect_all obj)) = []"
  by (simp add: deselect_all_def filter_empty_conv)

text \<open>What the selector returns, for every selection type.\<close>

lemma select_result:
  assumes m: "mode obj = EDIT" and v: "valid_axis (coord sp)"
    and ne: "type sp = ''max_coord'' \<or> type sp = ''min_coord'' \<Longrightarrow> verts obj \<noteq> []"
  shows "select_faces_by_criteria obj sp =
     (obj\<lparr>faces := mark_faces (spec_selected obj sp) (faces obj)\<rparr>,
      Inr (length (filter (spec_selected obj sp) (faces obj))))"
proof -
  consider (max) "type sp = ''max_coord''" | (min) "type sp = ''min_coord''"
    | (other) "type sp \<noteq> ''max_coord''" "type sp \<noteq> ''min_coord''"
    by blast
  then show ?thesis
  proof cases
    case max
    have s: "spec_selected obj sp = (\<lambda>f. spec_near_max obj sp f \<and> spec_normal_filter obj sp f)"
      using max by (simp add: spec_selected_def fun_eq_iff)
    show ?thesis
      unfolding s using select_max_result [OF m v max] ne max by simp
  next
    case min
    have s: "spec_selected obj sp = (\<lambda>f. spec_near_min obj sp f \<and> spec_normal_filter obj sp f)"
      using min by (simp add: spec_selected_def fun_eq_iff)
    show ?thesis
      unfolding s using select_min_result [OF m v min] ne min by simp
  next
    case other
    have s: "spec_selected obj sp = (\<lambda>f. False)"
      using other by (simp add: spec_selected_def fun_eq_iff)
    show ?thesis
      unfolding s using select_other_result [OF m v other]
      by (simp add: mark_faces_def deselect_all_def set_select_flags)
  qed
qed

lemma select_returns_result:
  assumes "select_faces_by_criteria obj sp = (obj', Inr n)"
  shows "obj' = obj\<lparr>faces := mark_faces (spec_selected obj sp) (faces obj)\<rparr>"
    and "n = length (filter (spec_selected obj sp) (faces obj))"
  using select_result [OF select_returns(1) [OF assms] select_returns(2) [OF assms]
          select_returns(3) [OF assms]] assms
  by simp_all

text \<open>
  Claim C1, as the code has it. When \<^verbatim>\<open>select_faces_by_criteria\<close> returns for \<^verbatim>\<open>max_coord\<close>, the
  mesh it leaves is the input mesh in which a visible face is selected exactly when every
  vertex of the face has its world coordinate on the chosen axis at least the maximum of that
  coordinate over all vertices of the mesh minus epsilon, and the face passes the normal
  filter; a hidden face stays hidden and unselected. For \<^verbatim>\<open>min_coord\<close> the same with at most the
  minimum plus epsilon. The selection before the call has no influence: any mesh that differs
  from the input only in its selection gives the same mesh and count.
\<close>

theorem select_faces_exact:
  assumes "select_faces_by_criteria obj sp = (obj', Inr n)"
  shows "(type sp = ''max_coord'' \<longrightarrow>
            obj' = obj\<lparr>faces :=
              map (\<lambda>f. f\<lparr>flags := (if hide f then Hidden
                                       else Visible (spec_near_max obj sp f \<and> spec_normal_filter obj sp f))\<rparr>)
                  (faces obj)\<rparr>)
       \<and> (type sp = ''min_coord'' \<longrightarrow>
            obj' = obj\<lparr>faces :=
              map (\<lambda>f. f\<lparr>flags := (if hide f then Hidden
                                       else Visible (spec_near_min obj sp f \<and> spec_normal_filter obj sp f))\<rparr>)
                  (faces obj)\<rparr>)
       \<and> (\<forall>i < length (faces obj).
            select (faces obj' ! i) =
              (\<not> hide (faces obj ! i) \<and> spec_selected obj sp (faces obj ! i)))
       \<and> (\<forall>obj2. deselect_all obj2 = deselect_all obj \<longrightarrow>
            select_faces_by_criteria obj2 sp = (obj', Inr n))"
proof (intro conjI impI allI)
  note r = select_returns_result(1) [OF assms]
  show "obj' = obj\<lparr>faces :=
              map (\<lambda>f. f\<lparr>flags := (if hide f then Hidden
                                       else Visible (spec_near_max obj sp f \<and> spec_normal_filter obj sp f))\<rparr>)
                  (faces obj)\<rparr>" if "type sp = ''max_coord''"
    using r that by (simp add: mark_faces_def spec_selected_def)
  show "obj' = obj\<lparr>faces :=
              map (\<lambda>f. f\<lparr>flags := (if hide f then Hidden
                                       else Visible (spec_near_min obj sp f \<and> spec_normal_filter obj sp f))\<rparr>)
                  (faces obj)\<rparr>" if "type sp = ''min_coord''"
    using r that by (simp add: mark_faces_def spec_selected_def)
  show "select (faces obj' ! i) = (\<not> hide (faces obj ! i) \<and> spec_selected obj sp (faces obj ! i))"
    if "i < length (faces obj)" for i
    using r that by (simp add: mark_faces_nth)
  show "select_faces_by_criteria obj2 sp = (obj', Inr n)" if d: "deselect_all obj2 = deselect_all obj" for obj2
  proof -
    have "matrix_world (deselect_all obj2) = matrix_world (deselect_all obj)"
      and "mode (deselect_all obj2) = mode (deselect_all obj)"
      using d by simp_all
    then have "matrix_world obj2 = matrix_world obj" and "mode obj2 = mode obj"
      by (simp_all add: deselect_all_def)
    then have "select_faces_by_criteria obj2 sp = select_faces_by_criteria obj sp"
      using d select_returns(1) [OF assms] by (simp add: select_faces_by_criteria_def)
    then show ?thesis using assms by simp
  qed
qed

text \<open>
  Claim C1 as stated speaks of every face. It fails on a hidden face: with the top face of the
  cube hidden, the top face has every vertex at the maximum and its normal points up, the call
  returns, and the top face is not selected.
\<close>

theorem hidden_face_not_selected_counterexample:
  "select_faces_by_criteria (cube_with Hidden (Visible True) (Visible True)) (params ''max_coord'' (3/2) 1)
     = (cube_with Hidden (Visible False) (Visible False), Inr 1)
   \<and> spec_near_max (cube_with Hidden (Visible True) (Visible True)) (params ''max_coord'' (3/2) 1)
        (faces (cube_with Hidden (Visible True) (Visible True)) ! 0)
   \<and> spec_normal_filter (cube_with Hidden (Visible True) (Visible True)) (params ''max_coord'' (3/2) 1)
        (faces (cube_with Hidden (Visible True) (Visible True)) ! 0)
   \<and> \<not> select (faces (cube_with Hidden (Visible False) (Visible False)) ! 0)"
proof -
  let ?c = "cube_with Hidden (Visible True) (Visible True)"
  let ?p = "params ''max_coord'' (3/2) 1"
  have "py_max (map (\<lambda>v. comp (mat_vec (matrix_world ?c) v) 2) (verts ?c)) = Inr (1/2)"
    by (simp add: cube_with_def identity_matrix_def)
  moreover have "verts ?c \<noteq> []"
    by (simp add: cube_with_def)
  ultimately have g: "spec_global_max ?c 2 = 1/2"
    using world_max [of ?c 2] by simp
  have k: "coord ?p = 2"
    by (simp add: params_def)
  have "marks_max (matrix_world ?c) (coord ?p) (epsilon ?p) (normal_direction ?p)
          (spec_global_max ?c (coord ?p)) (faces ?c ! 0)"
    by (simp only: k g)
       (simp add: marks_max_def params_def cube_with_def cube_faces_def quad_def identity_matrix_def
          face_verts_def)
  then have ab: "spec_near_max ?c ?p (faces ?c ! 0) \<and> spec_normal_filter ?c ?p (faces ?c ! 0)"
    by (simp only: marks_max_spec)
  have c: "\<not> select (faces (cube_with Hidden (Visible False) (Visible False)) ! 0)"
    by (simp add: select_def cube_with_def cube_faces_def quad_def)
  from hidden_top_max_1 ab c show ?thesis
    by simp
qed

theorem select_faces_exact_witness:
  "select_faces_by_criteria (cube False True True) (params ''max_coord'' (3/2) 1)
     = (cube True False False, Inr 1)
   \<and> cube True False False =
       (cube False True True)\<lparr>faces :=
          map (\<lambda>f. f\<lparr>flags := (if hide f then Hidden else Visible
                  (spec_near_max (cube False True True) (params ''max_coord'' (3/2) 1) f
                   \<and> spec_normal_filter (cube False True True) (params ''max_coord'' (3/2) 1) f))\<rparr>)
              (faces (cube False True True))\<rparr>
   \<and> select_faces_by_criteria (cube True True False) (params ''max_coord'' (3/2) 1)
     = (cube True False False, Inr 1)
   \<and> select_faces_by_criteria (cube True False True) (params ''min_coord'' (1/2) (-1))
     = (cube False True False, Inr 1)
   \<and> cube False True False =
       (cube True False True)\<lparr>faces :=
          map (\<lambda>f. f\<lparr>flags := (if hide f then Hidden else Visible
                  (spec_near_min (cube True False True) (params ''min_coord'' (1/2) (-1)) f
                   \<and> spec_normal_filter (cube True False True) (params ''min_coord'' (1/2) (-1)) f))\<rparr>)
              (faces (cube True False True))\<rparr>
   \<and> select_faces_by_criteria (cube_with Hidden (Visible True) (Visible True)) (params ''max_coord'' (3/2) 1)
     = (cube_with Hidden (Visible False) (Visible False), Inr 1)
   \<and> select (faces (cube_with Hidden (Visible False) (Visible False)) ! 0)
       = (\<not> hide (faces (cube_with Hidden (Visible True) (Visible True)) ! 0)
          \<and> spec_selected (cube_with Hidden (Visible True) (Visible True)) (params ''max_coord'' (3/2) 1)
               (faces (cube_with Hidden (Visible True) (Visible True)) ! 0))"
proof -
  have r: "select_faces_by_criteria (cube False True True) (params ''max_coord'' (3/2) 1)
             = (cube True False False, Inr 1)"
    by (simp add: cube_simps)
  have t: "type (params ''max_coord'' (3/2) 1) = ''max_coord''"
    by (simp add: params_def)
  have d: "deselect_all (cube True True False) = deselect_all (cube False True True)"
    by (simp add: cube_def cube_with_def cube_faces_def quad_def deselect_all_def set_select_def)
  have r': "select_faces_by_criteria (cube True False True) (params ''min_coord'' (1/2) (-1))
             = (cube False True False, Inr 1)"
    by (simp add: cube_simps)
  have t': "type (params ''min_coord'' (1/2) (-1)) = ''min_coord''"
    by (simp add: params_def)
  have l: "0 < length (faces (cube_with Hidden (Visible True) (Visible True)))"
    by (simp add: cube_with_def cube_faces_def)
  from select_faces_exact [OF r] select_faces_exact [OF r'] select_faces_exact [OF hidden_top_max_1]
       t d r t' r' l hidden_top_max_1
  show ?thesis
    by blast
qed

lemma spec_near_max_mono:
  "t1 \<le> t2 \<Longrightarrow> spec_near_max obj (sp\<lparr>epsilon := t1\<rparr>) f \<Longrightarrow> spec_near_max obj (sp\<lparr>epsilon := t2\<rparr>) f"
  by (fastforce simp: spec_near_max_def)

lemma spec_near_min_mono:
  "t1 \<le> t2 \<Longrightarrow> spec_near_min obj (sp\<lparr>epsilon := t1\<rparr>) f \<Longrightarrow> spec_near_min obj (sp\<lparr>epsilon := t2\<rparr>) f"
  by (fastforce simp: spec_near_min_def)

lemma spec_normal_filter_epsilon [simp]:
  "spec_normal_filter obj (sp\<lparr>epsilon := t\<rparr>) f = spec_normal_filter obj sp f"
  by (simp add: spec_normal_filter_def)

lemma spec_selected_mono:
  "t1 \<le> t2 \<Longrightarrow> spec_selected obj (sp\<lparr>epsilon := t1\<rparr>) f \<Longrightarrow> spec_selected obj (sp\<lparr>epsilon := t2\<rparr>) f"
  using spec_near_max_mono [of t1 t2 obj sp f] spec_near_min_mono [of t1 t2 obj sp f]
  by (auto simp: spec_selected_def split: if_splits)

text \<open>
  Claim C7. Selection is monotone in the tolerance: when the call returns with tolerance
  \<open>t1\<close> and \<open>t1 \<le> t2\<close>, it returns with \<open>t2\<close> too, and every face selected with \<open>t1\<close> is selected
  with \<open>t2\<close>.
\<close>

theorem tolerance_monotone:
  assumes le: "t1 \<le> t2"
    and r1: "select_faces_by_criteria obj (sp\<lparr>epsilon := t1\<rparr>) = (obj1, Inr n1)"
  shows "\<exists>obj2 n2. select_faces_by_criteria obj (sp\<lparr>epsilon := t2\<rparr>) = (obj2, Inr n2)
           \<and> length (faces obj1) = length (faces obj)
           \<and> length (faces obj2) = length (faces obj)
           \<and> (\<forall>i < length (faces obj). select (faces obj1 ! i) \<longrightarrow> select (faces obj2 ! i))"
proof -
  have m: "mode obj = EDIT" and v: "valid_axis (coord sp)"
    using select_returns(1,2) [OF r1] by simp_all
  have ne: "verts obj \<noteq> []" if "type sp = ''max_coord'' \<or> type sp = ''min_coord''"
    using select_returns(3) [OF r1] that by simp
  have e1: "faces obj1 = mark_faces (spec_selected obj (sp\<lparr>epsilon := t1\<rparr>)) (faces obj)"
    using select_returns_result(1) [OF r1] by simp
  have e2: "select_faces_by_criteria obj (sp\<lparr>epsilon := t2\<rparr>) =
     (obj\<lparr>faces := mark_faces (spec_selected obj (sp\<lparr>epsilon := t2\<rparr>)) (faces obj)\<rparr>,
      Inr (length (filter (spec_selected obj (sp\<lparr>epsilon := t2\<rparr>)) (faces obj))))"
    using select_result [of obj "sp\<lparr>epsilon := t2\<rparr>"] m v ne by simp
  show ?thesis
    unfolding e2 e1
    using spec_selected_mono [OF le, of obj sp]
    by (simp add: mark_faces_nth)
qed

theorem tolerance_monotone_witness:
  "(1/2 :: real) \<le> 3/2
   \<and> select_faces_by_criteria (cube False True True) ((params ''max_coord'' 0 0)\<lparr>epsilon := 1/2\<rparr>)
       = (cube True False False, Inr 1)
   \<and> select_faces_by_criteria (cube False True True) ((params ''max_coord'' 0 0)\<lparr>epsilon := 3/2\<rparr>)
       = (cube True True True, Inr 3)
   \<and> select (faces (cube True False False) ! 0) \<and> select (faces (cube True True True) ! 0)"
proof -
  have le: "(1/2 :: real) \<le> 3/2" by simp
  have r1: "select_faces_by_criteria (cube False True True) ((params ''max_coord'' 0 0)\<lparr>epsilon := 1/2\<rparr>)
       = (cube True False False, Inr 1)"
    by (simp add: cube_simps)
  have r2: "select_faces_by_criteria (cube False True True) ((params ''max_coord'' 0 0)\<lparr>epsilon := 3/2\<rparr>)
       = (cube True True True, Inr 3)"
    by (simp add: cube_simps)
  have s: "select (faces (cube True False False) ! 0)"
    by (simp add: select_def cube_def cube_with_def cube_faces_def quad_def)
  have l: "0 < length (faces (cube False True True))"
    by (simp add: cube_def cube_with_def cube_faces_def)
  from tolerance_monotone [OF le r1] r2 s l
  have "select (faces (cube True True True) ! 0)"
    by auto
  with le r1 r2 s show ?thesis
    by simp
qed

lemma spec_near_max_nd [simp]:
  "spec_near_max obj (sp\<lparr>normal_direction := d\<rparr>) f = spec_near_max obj sp f"
  by (simp add: spec_near_max_def)

lemma spec_near_min_nd [simp]:
  "spec_near_min obj (sp\<lparr>normal_direction := d\<rparr>) f = spec_near_min obj sp f"
  by (simp add: spec_near_min_def)

lemma spec_normal_filter_ignore [simp]:
  "spec_normal_filter obj (sp\<lparr>normal_direction := 0\<rparr>) f"
  by (simp add: spec_normal_filter_def)

lemma spec_normal_filter_positive [simp]:
  "spec_normal_filter obj (sp\<lparr>normal_direction := 1\<rparr>) f = (spec_normal_component obj (coord sp) f > 0)"
  by (simp add: spec_normal_filter_def)

lemma spec_normal_filter_negative [simp]:
  "spec_normal_filter obj (sp\<lparr>normal_direction := -1\<rparr>) f = (spec_normal_component obj (coord sp) f < 0)"
  by (simp add: spec_normal_filter_def)

text \<open>
  Claim C8, as the code has it. With \<^verbatim>\<open>normal_direction = 0\<close> the selector selects every face
  that it selects with \<^verbatim>\<open>normal_direction = 1\<close> or with \<^verbatim>\<open>normal_direction = -1\<close> (same type, axis
  and epsilon). A face whose world normal has component zero on the axis is selected with
  neither 1 nor -1, and with 0 exactly when it is visible and the coordinate predicate holds.
\<close>

theorem ignore_superset:
  assumes r0: "select_faces_by_criteria obj (sp\<lparr>normal_direction := 0\<rparr>) = (obj0, Inr n0)"
  shows "\<exists>objp np objn nn.
           select_faces_by_criteria obj (sp\<lparr>normal_direction := 1\<rparr>) = (objp, Inr np)
         \<and> select_faces_by_criteria obj (sp\<lparr>normal_direction := -1\<rparr>) = (objn, Inr nn)
         \<and> (\<forall>i < length (faces obj).
               (select (faces objp ! i) \<or> select (faces objn ! i) \<longrightarrow> select (faces obj0 ! i))
             \<and> (spec_normal_component obj (coord sp) (faces obj ! i) = 0 \<longrightarrow>
                   \<not> select (faces objp ! i) \<and> \<not> select (faces objn ! i)
                 \<and> select (faces obj0 ! i)
                     = (\<not> hide (faces obj ! i) \<and> spec_near obj sp (faces obj ! i))))"
proof -
  have m: "mode obj = EDIT" and v: "valid_axis (coord sp)"
    using select_returns(1,2) [OF r0] by simp_all
  have ne: "verts obj \<noteq> []" if "type sp = ''max_coord'' \<or> type sp = ''min_coord''"
    using select_returns(3) [OF r0] that by simp
  have e0: "faces obj0 = mark_faces (spec_selected obj (sp\<lparr>normal_direction := 0\<rparr>)) (faces obj)"
    using select_returns_result(1) [OF r0] by simp
  have ep: "select_faces_by_criteria obj (sp\<lparr>normal_direction := 1\<rparr>) =
     (obj\<lparr>faces := mark_faces (spec_selected obj (sp\<lparr>normal_direction := 1\<rparr>)) (faces obj)\<rparr>,
      Inr (length (filter (spec_selected obj (sp\<lparr>normal_direction := 1\<rparr>)) (faces obj))))"
    using select_result [of obj "sp\<lparr>normal_direction := 1\<rparr>"] m v ne by simp
  have en: "select_faces_by_criteria obj (sp\<lparr>normal_direction := -1\<rparr>) =
     (obj\<lparr>faces := mark_faces (spec_selected obj (sp\<lparr>normal_direction := -1\<rparr>)) (faces obj)\<rparr>,
      Inr (length (filter (spec_selected obj (sp\<lparr>normal_direction := -1\<rparr>)) (faces obj))))"
    using select_result [of obj "sp\<lparr>normal_direction := -1\<rparr>"] m v ne by simp
  show ?thesis
    unfolding ep en e0
    by (simp add: mark_faces_nth spec_selected_def spec_near_def)
qed

lemma hidden_side_ignore:
  "select_faces_by_criteria (cube_with (Visible False) (Visible False) Hidden)
       ((params ''max_coord'' (3/2) 5)\<lparr>normal_direction := 0\<rparr>)
     = (cube_with (Visible True) (Visible True) Hidden, Inr 3)"
  by (simp add: cube_simps)

lemma cube_global_max: "spec_global_max (cube_with a b c) 2 = 1/2"
proof -
  have "py_max (map (\<lambda>v. comp (mat_vec (matrix_world (cube_with a b c)) v) 2) (verts (cube_with a b c)))
          = Inr (1/2)"
    by (simp add: cube_with_def identity_matrix_def)
  moreover have "verts (cube_with a b c) \<noteq> []"
    by (simp add: cube_with_def)
  ultimately show ?thesis
    using world_max [of "cube_with a b c" 2] by simp
qed

lemma cube_side_near:
  "spec_near (cube_with a b c) (params ''max_coord'' (3/2) nd) (faces (cube_with a b c) ! 2)"
proof -
  have "spec_near_max (cube_with a b c) (params ''max_coord'' (3/2) 0) (faces (cube_with a b c) ! 2)
      \<and> spec_normal_filter (cube_with a b c) (params ''max_coord'' (3/2) 0) (faces (cube_with a b c) ! 2)"
  proof -
    let ?c = "cube_with a b c" and ?p = "params ''max_coord'' (3/2) 0"
    have k: "coord ?p = 2"
      by (simp add: params_def)
    have "marks_max (matrix_world ?c) (coord ?p) (epsilon ?p) (normal_direction ?p)
            (spec_global_max ?c (coord ?p)) (faces ?c ! 2)"
      by (simp only: k cube_global_max)
         (simp add: marks_max_def params_def cube_with_def cube_faces_def quad_def identity_matrix_def
            face_verts_def)
    then show ?thesis
      by (simp only: marks_max_spec)
  qed
  then have "spec_near_max (cube_with a b c) (params ''max_coord'' (3/2) nd) (faces (cube_with a b c) ! 2)"
    by (simp add: spec_near_max_def params_def)
  then show ?thesis
    by (simp add: spec_near_def params_def)
qed

lemma cube_side_normal: "spec_normal_component (cube_with a b c) 2 (faces (cube_with a b c) ! 2) = 0"
  by (simp add: spec_normal_component_def cube_with_def cube_faces_def quad_def identity_matrix_def)

text \<open>
  Claim C8 as stated has every zero-normal face that meets the coordinate predicate accepted
  with \<^verbatim>\<open>normal_direction = 0\<close>. It fails on a hidden face: with the side face of the cube
  hidden, the side face has normal component zero on Z and meets the coordinate predicate, the
  call returns, and the side face is not selected.
\<close>

theorem hidden_face_ignore_counterexample:
  "select_faces_by_criteria (cube_with (Visible False) (Visible False) Hidden)
       ((params ''max_coord'' (3/2) 5)\<lparr>normal_direction := 0\<rparr>)
     = (cube_with (Visible True) (Visible True) Hidden, Inr 3)
   \<and> spec_normal_component (cube_with (Visible False) (Visible False) Hidden) 2
        (faces (cube_with (Visible False) (Visible False) Hidden) ! 2) = 0
   \<and> spec_near (cube_with (Visible False) (Visible False) Hidden) (params ''max_coord'' (3/2) 5)
        (faces (cube_with (Visible False) (Visible False) Hidden) ! 2)
   \<and> \<not> select (faces (cube_with (Visible True) (Visible True) Hidden) ! 2)"
proof -
  have "\<not> select (faces (cube_with (Visible True) (Visible True) Hidden) ! 2)"
    by (simp add: select_def cube_with_def cube_faces_def quad_def)
  with hidden_side_ignore cube_side_normal cube_side_near show ?thesis
    by simp
qed

theorem ignore_superset_witness:
  "select_faces_by_criteria (cube False True True) ((params ''max_coord'' (3/2) 5)\<lparr>normal_direction := 0\<rparr>)
     = (cube True True True, Inr 3)
   \<and> select_faces_by_criteria (cube False True True) ((params ''max_coord'' (3/2) 5)\<lparr>normal_direction := 1\<rparr>)
     = (cube True False False, Inr 1)
   \<and> select_faces_by_criteria (cube False True True) ((params ''max_coord'' (3/2) 5)\<lparr>normal_direction := -1\<rparr>)
     = (cube False True False, Inr 1)
   \<and> spec_normal_component (cube False True True) 2 (faces (cube False True True) ! 2) = 0
   \<and> \<not> hide (faces (cube False True True) ! 2)
   \<and> spec_near (cube False True True) (params ''max_coord'' (3/2) 5) (faces (cube False True True) ! 2)
   \<and> select (faces (cube True True True) ! 2)"
proof -
  have r0: "select_faces_by_criteria (cube False True True)
              ((params ''max_coord'' (3/2) 5)\<lparr>normal_direction := 0\<rparr>) = (cube True True True, Inr 3)"
    by (simp add: cube_simps)
  have rp: "select_faces_by_criteria (cube False True True)
              ((params ''max_coord'' (3/2) 5)\<lparr>normal_direction := 1\<rparr>) = (cube True False False, Inr 1)"
    by (simp add: cube_simps)
  have rn: "select_faces_by_criteria (cube False True True)
              ((params ''max_coord'' (3/2) 5)\<lparr>normal_direction := -1\<rparr>) = (cube False True False, Inr 1)"
    by (simp add: cube_simps)
  have z: "spec_normal_component (cube False True True) 2 (faces (cube False True True) ! 2) = 0"
    by (simp add: cube_def cube_side_normal)
  have c: "coord (params ''max_coord'' (3/2) 5) = 2"
    by (simp add: params_def)
  have l: "2 < length (faces (cube False True True))"
    by (simp add: cube_def cube_with_def cube_faces_def)
  have s: "select (faces (cube True True True) ! 2)"
    by (simp add: select_def cube_def cube_with_def cube_faces_def quad_def)
  have h: "\<not> hide (faces (cube False True True) ! 2)"
    by (simp add: hide_def cube_def cube_with_def cube_faces_def quad_def)
  from ignore_superset [OF r0] obtain objp np objn nn where
    p: "select_faces_by_criteria (cube False True True)
          ((params ''max_coord'' (3/2) 5)\<lparr>normal_direction := 1\<rparr>) = (objp, Inr np)"
    and n: "select_faces_by_criteria (cube False True True)
          ((params ''max_coord'' (3/2) 5)\<lparr>normal_direction := -1\<rparr>) = (objn, Inr nn)"
    and a: "\<forall>i < length (faces (cube False True True)).
               (select (faces objp ! i) \<or> select (faces objn ! i) \<longrightarrow> select (faces (cube True True True) ! i))
             \<and> (spec_normal_component (cube False True True) (coord (params ''max_coord'' (3/2) 5))
                    (faces (cube False True True) ! i) = 0 \<longrightarrow>
                   \<not> select (faces objp ! i) \<and> \<not> select (faces objn ! i)
                 \<and> select (faces (cube True True True) ! i)
                     = (\<not> hide (faces (cube False True True) ! i)
                        \<and> spec_near (cube False True True) (params ''max_coord'' (3/2) 5)
                             (faces (cube False True True) ! i)))"
    by blast
  from a l have "spec_normal_component (cube False True True) (coord (params ''max_coord'' (3/2) 5))
                    (faces (cube False True True) ! 2) = 0 \<longrightarrow>
                 select (faces (cube True True True) ! 2)
                     = (\<not> hide (faces (cube False True True) ! 2)
                        \<and> spec_near (cube False True True) (params ''max_coord'' (3/2) 5)
                             (faces (cube False True True) ! 2))"
    by blast
  with z c s have "spec_near (cube False True True) (params ''max_coord'' (3/2) 5)
                         (faces (cube False True True) ! 2)"
    by simp
  with r0 rp rn z h s show ?thesis
    by simp
qed

text \<open>
  Claim C9. On a mesh without vertices, \<^verbatim>\<open>max_coord\<close> and \<^verbatim>\<open>min_coord\<close> selection raise and
  return no count. In edit mode the call ends in ValueError (from \<^verbatim>\<open>max\<close> or \<^verbatim>\<open>min\<close> of an empty
  sequence), or in IndexError when the axis index is already refused by the axis-name lookup,
  and every face is left deselected; outside edit mode it ends in ValueError with the mesh
  untouched.
\<close>

theorem empty_mesh_raises:
  assumes "verts obj = []" and "type sp = ''max_coord'' \<or> type sp = ''min_coord''"
  shows "select_faces_by_criteria obj sp =
           (if mode obj = EDIT
            then (deselect_all obj, Inl (if valid_axis (coord sp) then ValueError else IndexError))
            else (obj, Inl ValueError))"
  using assms select_no_verts [of obj sp] select_bad_axis [of obj sp] select_not_edit [of obj sp]
  by (cases "mode obj = EDIT"; cases "valid_axis (coord sp)") simp_all

theorem empty_mesh_raises_witness:
  "verts no_verts = []
   \<and> select_faces_by_criteria no_verts (params ''max_coord'' (3/2) 1) = (no_verts, Inl ValueError)
   \<and> select_faces_by_criteria no_verts (params ''min_coord'' (3/2) 1) = (no_verts, Inl ValueError)"
proof -
  have e: "verts no_verts = []" by (simp add: no_verts_def)
  have d: "deselect_all no_verts = no_verts" by (simp add: no_verts_def deselect_all_def)
  have m: "mode no_verts = EDIT" by (simp add: no_verts_def)
  have v: "valid_axis (coord (params t (3/2) 1))" for t
    by (simp add: valid_axis_def params_def)
  have t1: "type (params ''max_coord'' (3/2) 1) = ''max_coord''" by (simp add: params_def)
  have t2: "type (params ''min_coord'' (3/2) 1) = ''min_coord''" by (simp add: params_def)
  from empty_mesh_raises [OF e, of "params ''max_coord'' (3/2) 1"]
       empty_mesh_raises [OF e, of "params ''min_coord'' (3/2) 1"] e d m v t1 t2
  show ?thesis by simp
qed




section \<open>Properties of the UV projector\<close>

lemma select_loops_update [simp]: "select (f\<lparr>loops := ls\<rparr>) = select f"
  by (simp add: select_def)

lemma project_loops_total:
  assumes "\<And>co. g co = Inr (h co)"
  shows "project_loops g ls = (map (\<lambda>l. l\<lparr>uv := h (vert l)\<rparr>) ls, None)"
  by (induction ls) (simp_all add: assms)

lemma project_faces_total:
  assumes "\<And>co. g co = Inr (h co)"
  shows "project_faces g fs =
           (map (\<lambda>f. if select f then f\<lparr>loops := map (\<lambda>l. l\<lparr>uv := h (vert l)\<rparr>) (loops f)\<rparr> else f) fs,
            None)"
  by (induction fs) (simp_all add: project_loops_total [of g h, OF assms])

lemma camera_projection_persp:
  assumes "well_formed_camera camera"
  shows "camera_projection camera = Inr (Perspective (spec_fov camera) (spec_aspect camera))"
  using assms
  by (simp add: well_formed_camera_def camera_projection_def spec_fov_def spec_aspect_def Let_def)

lemma tan_half_fov:
  "tan (spec_fov camera / 2) = sensor_width camera / (2 * lens camera)"
  by (simp add: spec_fov_def tan_arctan)

lemma vertex_uv_persp:
  assumes "well_formed_camera camera"
  shows "vertex_uv (Perspective (spec_fov camera) (spec_aspect camera)) p = Inr (camera_uv camera p)"
proof -
  obtain x y z where p: "p = (x, y, z)" by (cases p) auto
  have t: "tan (spec_fov camera / 2) \<noteq> 0"
    using assms by (simp add: tan_half_fov well_formed_camera_def)
  have a: "spec_aspect camera \<noteq> 0"
    using assms by (simp add: spec_aspect_def well_formed_camera_def)
  show ?thesis
    using t a by (simp add: p camera_uv_def view_z_def Let_def)
qed

lemma project_result:
  assumes wf: "well_formed_camera camera"
    and inv: "inverted (cam_matrix_world camera) = Some w2c"
    and sel: "\<exists>f \<in> set (faces obj). select f"
  shows "project_from_view_manual inverted obj camera =
     ((uv_verify (obj\<lparr>mode := EDIT\<rparr>))\<lparr>faces :=
         map (\<lambda>f. if select f
                   then f\<lparr>loops := map (\<lambda>l. l\<lparr>uv := camera_uv camera (spec_view_pos w2c obj (vert l))\<rparr>) (loops f)\<rparr>
                   else f) (faces obj)\<rparr>,
      Inr True)"
proof -
  have m: "(if mode obj \<noteq> EDIT then obj\<lparr>mode := EDIT\<rparr> else obj) = obj\<lparr>mode := EDIT\<rparr>"
    by simp
  have f: "faces (uv_verify (obj\<lparr>mode := EDIT\<rparr>)) = faces obj"
    and w: "matrix_world (uv_verify (obj\<lparr>mode := EDIT\<rparr>)) = matrix_world obj"
    by (simp_all add: uv_verify_def)
  have ne: "filter select (faces obj) \<noteq> []"
    using sel by (simp add: filter_empty_conv)
  have g: "vertex_uv (Perspective (spec_fov camera) (spec_aspect camera))
             (mat_vec w2c (mat_vec (matrix_world obj) co))
           = Inr (camera_uv camera (spec_view_pos w2c obj co))" for co
    by (simp add: vertex_uv_persp [OF wf] spec_view_pos_def)
  show ?thesis
    unfolding project_from_view_manual_def m Let_def inv f w
    using ne
    by (simp add: camera_projection_persp [OF wf] project_faces_total [OF g])
qed

text \<open>
  Claim C2. Under a perspective camera (positive focal length and sensor sizes, invertible
  world matrix), the projector returns True, and a corner of a selected face whose camera-space
  position \<open>(x, y, z)\<close> has \<open>z < 0\<close> gets \<open>u = 0.5 + (x / -z) / (2 tan(fov/2) aspect)\<close> and
  \<open>v = 0.5 + (y / -z) / (2 tan(fov/2))\<close>, with \<open>fov = 2 atan(sensorWidth / (2 focalLength))\<close> and
  \<open>aspect = sensorWidth / sensorHeight\<close>. On the optical axis that is \<open>(0.5, 0.5)\<close>. The value is
  stored as computed, without clamping.
\<close>

theorem perspective_uv:
  assumes wf: "well_formed_camera camera"
    and inv: "inverted (cam_matrix_world camera) = Some w2c"
    and i: "i < length (faces obj)" and sel: "select (faces obj ! i)"
    and j: "j < length (loops (faces obj ! i))"
    and vp: "spec_view_pos w2c obj (vert (loops (faces obj ! i) ! j)) = (x, y, z)"
    and z: "z < 0"
  shows "\<exists>obj'. project_from_view_manual inverted obj camera = (obj', Inr True)
           \<and> uv (loops (faces obj' ! i) ! j) =
               (0.5 + (x / - z) / (2 * tan (spec_fov camera / 2) * spec_aspect camera),
                0.5 + (y / - z) / (2 * tan (spec_fov camera / 2)))
           \<and> (x = 0 \<and> y = 0 \<longrightarrow> uv (loops (faces obj' ! i) ! j) = (0.5, 0.5))"
proof -
  have "faces obj ! i \<in> set (faces obj)"
    using i by simp
  then have s: "\<exists>f \<in> set (faces obj). select f"
    using sel by blast
  have c: "camera_uv camera (x, y, z) =
             (0.5 + (x / - z) / (2 * tan (spec_fov camera / 2) * spec_aspect camera),
              0.5 + (y / - z) / (2 * tan (spec_fov camera / 2)))"
    using z by (simp add: camera_uv_def view_z_def)
  have u: "uv (loops (faces (snd_obj) ! i) ! j) = camera_uv camera (x, y, z)"
    if "snd_obj = fst (project_from_view_manual inverted obj camera)" for snd_obj
    unfolding that project_result [of camera inverted w2c obj, OF wf inv s]
    using i sel j by (simp add: vp)
  have c0: "camera_uv camera (x, y, z) = (0.5, 0.5)" if "x = 0 \<and> y = 0"
    using z that by (simp add: camera_uv_def view_z_def)
  have r: "project_from_view_manual inverted obj camera
             = (fst (project_from_view_manual inverted obj camera), Inr True)"
    unfolding project_result [of camera inverted w2c obj, OF wf inv s] by simp
  show ?thesis
    using r u [OF refl] c c0 by metis
qed

text \<open>
  Claim C3. Under the same camera, a corner of a selected face whose camera-space position
  has \<open>z \<ge> 0\<close> gets exactly \<open>(0.5, 0.5)\<close>. The face is not rejected: it keeps all its corners,
  and each of its other corners with \<open>z < 0\<close> gets the projected value.
\<close>

theorem behind_camera_fallback:
  assumes wf: "well_formed_camera camera"
    and inv: "inverted (cam_matrix_world camera) = Some w2c"
    and i: "i < length (faces obj)" and sel: "select (faces obj ! i)"
    and j: "j < length (loops (faces obj ! i))"
    and z: "view_z (spec_view_pos w2c obj (vert (loops (faces obj ! i) ! j))) \<ge> 0"
  shows "\<exists>obj'. project_from_view_manual inverted obj camera = (obj', Inr True)
           \<and> uv (loops (faces obj' ! i) ! j) = (0.5, 0.5)
           \<and> length (loops (faces obj' ! i)) = length (loops (faces obj ! i))
           \<and> (\<forall>k < length (loops (faces obj ! i)).
                 view_z (spec_view_pos w2c obj (vert (loops (faces obj ! i) ! k))) < 0 \<longrightarrow>
                 uv (loops (faces obj' ! i) ! k) =
                   spec_persp_uv camera (spec_view_pos w2c obj (vert (loops (faces obj ! i) ! k))))"
proof -
  have "faces obj ! i \<in> set (faces obj)"
    using i by simp
  then have s: "\<exists>f \<in> set (faces obj). select f"
    using sel by blast
  show ?thesis
    unfolding project_result [of camera inverted w2c obj, OF wf inv s]
    using i sel j z by (auto simp: camera_uv_def)
qed

lemma camera_top_wf: "well_formed_camera camera_top"
  by (simp add: well_formed_camera_def camera_top_def)

lemma inverted_top_camera: "inverted_top (cam_matrix_world camera_top) = Some (translation (0, 0, -10))"
  by (simp add: inverted_top_def camera_top_def)

lemma camera_top_tan: "tan (spec_fov camera_top / 2) = 9 / 25"
  by (simp add: tan_half_fov camera_top_def)

lemma camera_top_aspect: "spec_aspect camera_top = 3 / 2"
  by (simp add: spec_aspect_def camera_top_def)

lemmas probe_simps = probe_def triangle_def spec_view_pos_def translation_def identity_matrix_def
  select_def

lemma probe_project:
  "project_from_view_manual inverted_top (probe (0, 0) (0, 0) (0, 0)) camera_top
     = (probe (1/2, 1/2) (527/54, 1/2) (1/2, 1/2), Inr True)"
proof -
  have s: "\<exists>f \<in> set (faces (probe (0, 0) (0, 0) (0, 0))). select f"
    by (simp add: probe_simps)
  show ?thesis
    unfolding project_result [of camera_top inverted_top "translation (0, 0, -10)" "probe (0, 0) (0, 0) (0, 0)", OF camera_top_wf inverted_top_camera s]
    by (simp add: probe_simps uv_verify_def camera_uv_def view_z_def camera_top_tan camera_top_aspect)
qed

theorem perspective_uv_witness:
  "well_formed_camera camera_top
   \<and> inverted_top (cam_matrix_world camera_top) = Some (translation (0, 0, -10))
   \<and> select (faces (probe (0, 0) (0, 0) (0, 0)) ! 0)
   \<and> spec_view_pos (translation (0, 0, -10)) (probe (0, 0) (0, 0) (0, 0))
        (vert (loops (faces (probe (0, 0) (0, 0) (0, 0)) ! 0) ! 1)) = (100, 0, -10)
   \<and> spec_view_pos (translation (0, 0, -10)) (probe (0, 0) (0, 0) (0, 0))
        (vert (loops (faces (probe (0, 0) (0, 0) (0, 0)) ! 0) ! 0)) = (0, 0, -10)
   \<and> (\<exists>obj'. project_from_view_manual inverted_top (probe (0, 0) (0, 0) (0, 0)) camera_top = (obj', Inr True)
         \<and> uv (loops (faces obj' ! 0) ! 1) = (527/54, 1/2)
         \<and> uv (loops (faces obj' ! 0) ! 0) = (1/2, 1/2))
   \<and> (1::real) < 527/54"
proof -
  let ?p = "probe (0, 0) (0, 0) (0, 0)"
  have i: "0 < length (faces ?p)" and sel: "select (faces ?p ! 0)"
    and j1: "1 < length (loops (faces ?p ! 0))" and j0: "0 < length (loops (faces ?p ! 0))"
    by (simp_all add: probe_simps)
  have v1: "spec_view_pos (translation (0, 0, -10)) ?p (vert (loops (faces ?p ! 0) ! 1)) = (100, 0, -10)"
    by (simp add: probe_simps)
  have v0: "spec_view_pos (translation (0, 0, -10)) ?p (vert (loops (faces ?p ! 0) ! 0)) = (0, 0, -10)"
    by (simp add: probe_simps)
  have z: "(-10::real) < 0" by simp
  from perspective_uv [of camera_top inverted_top "translation (0, 0, -10)" 0 ?p 1, OF camera_top_wf inverted_top_camera i sel j1 v1 z]
  obtain o1 where r1: "project_from_view_manual inverted_top ?p camera_top = (o1, Inr True)"
    and u1: "uv (loops (faces o1 ! 0) ! 1) = (527/54, 1/2)"
    by (auto simp: camera_top_tan camera_top_aspect)
  from perspective_uv [of camera_top inverted_top "translation (0, 0, -10)" 0 ?p 0, OF camera_top_wf inverted_top_camera i sel j0 v0 z]
  obtain o0 where r0: "project_from_view_manual inverted_top ?p camera_top = (o0, Inr True)"
    and u0: "uv (loops (faces o0 ! 0) ! 0) = (1/2, 1/2)"
    by auto
  from r0 r1 have "o0 = o1" by simp
  with r1 u1 u0 camera_top_wf inverted_top_camera sel v1 v0 show ?thesis
    by simp
qed

theorem behind_camera_fallback_witness:
  "well_formed_camera camera_top
   \<and> inverted_top (cam_matrix_world camera_top) = Some (translation (0, 0, -10))
   \<and> select (faces (probe (0, 0) (0, 0) (0, 0)) ! 0)
   \<and> spec_view_pos (translation (0, 0, -10)) (probe (0, 0) (0, 0) (0, 0))
        (vert (loops (faces (probe (0, 0) (0, 0) (0, 0)) ! 0) ! 2)) = (0, 0, 10)
   \<and> (\<exists>obj'. project_from_view_manual inverted_top (probe (0, 0) (0, 0) (0, 0)) camera_top = (obj', Inr True)
         \<and> uv (loops (faces obj' ! 0) ! 2) = (1/2, 1/2)
         \<and> uv (loops (faces obj' ! 0) ! 1) = (527/54, 1/2))"
proof -
  let ?p = "probe (0, 0) (0, 0) (0, 0)"
  have i: "0 < length (faces ?p)" and sel: "select (faces ?p ! 0)"
    and j2: "2 < length (loops (faces ?p ! 0))" and j1: "1 < length (loops (faces ?p ! 0))"
    by (simp_all add: probe_simps)
  have v2: "spec_view_pos (translation (0, 0, -10)) ?p (vert (loops (faces ?p ! 0) ! 2)) = (0, 0, 10)"
    by (simp add: probe_simps)
  have v1: "spec_view_pos (translation (0, 0, -10)) ?p (vert (loops (faces ?p ! 0) ! 1)) = (100, 0, -10)"
    by (simp add: probe_simps)
  have z: "view_z (spec_view_pos (translation (0, 0, -10)) ?p (vert (loops (faces ?p ! 0) ! 2))) \<ge> 0"
    by (simp add: v2 view_z_def)
  from behind_camera_fallback [of camera_top inverted_top "translation (0, 0, -10)" 0 ?p 2, OF camera_top_wf inverted_top_camera i sel j2 z]
  obtain o2 where r: "project_from_view_manual inverted_top ?p camera_top = (o2, Inr True)"
    and u2: "uv (loops (faces o2 ! 0) ! 2) = (0.5, 0.5)"
    and rest: "\<forall>k < length (loops (faces ?p ! 0)).
                 view_z (spec_view_pos (translation (0, 0, -10)) ?p (vert (loops (faces ?p ! 0) ! k))) < 0 \<longrightarrow>
                 uv (loops (faces o2 ! 0) ! k) =
                   spec_persp_uv camera_top (spec_view_pos (translation (0, 0, -10)) ?p (vert (loops (faces ?p ! 0) ! k)))"
    by blast
  from rest [rule_format, of 1] j1 have "uv (loops (faces o2 ! 0) ! 1) = spec_persp_uv camera_top (100, 0, -10)"
    by (simp only: v1 view_z_def) simp
  then have u1: "uv (loops (faces o2 ! 0) ! 1) = (527/54, 1/2)"
    by (simp add: camera_top_tan camera_top_aspect)
  from r u2 u1 camera_top_wf inverted_top_camera sel v2 show ?thesis
    by simp
qed

section \<open>Properties of the pipeline driver\<close>

declare grow_slots.simps [simp del]

lemma grow_slots_refused:
  "(snd (grow_slots env slots idx) \<noteq> None)
     = (\<exists>n. length slots \<le> n \<and> n \<le> idx \<and> \<not> materials_append env n)"
proof (induction env slots idx rule: grow_slots.induct)
  case (1 env slots idx)
  show ?case
  proof (cases "length slots \<le> idx")
    case False
    then show ?thesis
      by (subst grow_slots.simps) auto
  next
    case True
    show ?thesis
    proof (cases "materials_append env (length slots)")
      case False
      then show ?thesis
        using True by (subst grow_slots.simps) auto
    next
      case ok: True
      have "(\<exists>n. length slots \<le> n \<and> n \<le> idx \<and> \<not> materials_append env n)
              = (\<exists>n. length (slots @ [None]) \<le> n \<and> n \<le> idx \<and> \<not> materials_append env n)"
      proof
        assume "\<exists>n. length slots \<le> n \<and> n \<le> idx \<and> \<not> materials_append env n"
        then obtain n where n: "length slots \<le> n" "n \<le> idx" "\<not> materials_append env n"
          by blast
        with ok have "n \<noteq> length slots" by auto
        with n show "\<exists>n. length (slots @ [None]) \<le> n \<and> n \<le> idx \<and> \<not> materials_append env n"
          by (intro exI [of _ n]) simp
      next
        assume "\<exists>n. length (slots @ [None]) \<le> n \<and> n \<le> idx \<and> \<not> materials_append env n"
        then obtain n where "length (slots @ [None]) \<le> n" "n \<le> idx" "\<not> materials_append env n"
          by blast
        then show "\<exists>n. length slots \<le> n \<and> n \<le> idx \<and> \<not> materials_append env n"
          by (intro exI [of _ n]) simp
      qed
      then show ?thesis
        using "1.IH" [OF True ok] True ok by (subst grow_slots.simps) simp
    qed
  qed
qed

lemma calls_record_call [simp]: "calls (record_call e w) = calls w @ [e]"
  by (simp add: record_call_def)

lemma cameras_record_call [simp]: "cameras (record_call e w) = cameras w"
  by (simp add: record_call_def)

lemma calls_load_texture: "load_texture env path w = (w', r) \<Longrightarrow> calls w' = calls w"
  by (auto simp: load_texture_def split: if_splits)

lemma setup_material_result:
  assumes "setup_material_with_texture env idx path nm (obj, w) = ((obj', w'), r)"
  shows "calls w' = calls w" and "faces obj' = faces obj"
    and "(r \<noteq> None) = slots_refused env obj idx"
proof -
  obtain slots g where g: "grow_slots env (material_slots obj) idx = (slots, g)"
    by (meson surj_pair)
  obtain w1 r1 where l: "load_texture env path w = (w1, r1)"
    by (meson surj_pair)
  have c: "calls w1 = calls w"
    using calls_load_texture [OF l] .
  have k: "(g \<noteq> None) = slots_refused env obj idx"
    using grow_slots_refused [of env "material_slots obj" idx] g
    by (simp add: slots_refused_def)
  show "calls w' = calls w"
    using assms c
    by (cases g; cases r1) (auto simp: setup_material_with_texture_def g l Let_def)
  show "faces obj' = faces obj"
    using assms
    by (cases g; cases r1) (auto simp: setup_material_with_texture_def g l Let_def)
  show "(r \<noteq> None) = slots_refused env obj idx"
    using assms k
    by (cases g; cases r1) (auto simp: setup_material_with_texture_def g l Let_def)
qed

lemma calls_at_select: "calls (at_select config camera w) = calls w @ take 4 (camera_calls config)"
  by (simp add: at_select_def camera_calls_def record_call_def)

text \<open>The five ways through the body of \<^verbatim>\<open>process_camera_view\<close>.\<close>

lemma try_not_found:
  assumes "cameras w (name config) = None"
  shows "process_camera_view_try env config (obj, w)
           = ((obj, record_call (ProcessCamera (name config)) w), Inr False)"
  using assms by (simp add: process_camera_view_try_def Let_def)

lemma try_selector_raises:
  assumes "cameras w (name config) = Some camera"
    and "select_faces_by_criteria (obj\<lparr>mode := EDIT\<rparr>) (selection_params config) = (o1, Inl e)"
  shows "process_camera_view_try env config (obj, w) = ((o1, at_select config camera w), Inl e)"
  using assms by (simp add: process_camera_view_try_def Let_def at_select_def)

lemma try_nothing_selected:
  assumes "cameras w (name config) = Some camera"
    and "select_faces_by_criteria (obj\<lparr>mode := EDIT\<rparr>) (selection_params config) = (o1, Inr 0)"
  shows "process_camera_view_try env config (obj, w) = ((o1, at_select config camera w), Inr False)"
  using assms by (simp add: process_camera_view_try_def Let_def at_select_def)

lemma try_setup_raises:
  assumes "cameras w (name config) = Some camera"
    and "select_faces_by_criteria (obj\<lparr>mode := EDIT\<rparr>) (selection_params config) = (o1, Inr n)"
    and "n \<noteq> 0"
    and "setup_material_with_texture env (material_index config) (texture_path config)
            (DEFAULT_MATERIAL_BASENAME @ ''_'' @ name config)
            (o1, record_call (SetupMaterial (material_index config)) (at_select config camera w))
          = ((o2, w2), Some e)"
  shows "process_camera_view_try env config (obj, w) = ((o2, w2), Inl e)"
  using assms by (simp add: process_camera_view_try_def Let_def at_select_def)

lemma try_projects:
  assumes "cameras w (name config) = Some camera"
    and "select_faces_by_criteria (obj\<lparr>mode := EDIT\<rparr>) (selection_params config) = (o1, Inr n)"
    and "n \<noteq> 0"
    and "setup_material_with_texture env (material_index config) (texture_path config)
            (DEFAULT_MATERIAL_BASENAME @ ''_'' @ name config)
            (o1, record_call (SetupMaterial (material_index config)) (at_select config camera w))
          = ((o2, w2), None)"
    and "project_from_view_manual (matrix_inverted env)
            (material_slot_assign (o2\<lparr>active_material_index := material_index config\<rparr>)) camera
          = (o3, r3)"
  shows "process_camera_view_try env config (obj, w)
           = ((o3, record_call (ProjectUV (name config))
                     (record_call (SlotAssign (material_index config)) w2)),
              (case r3 of Inl e \<Rightarrow> Inl e | Inr b \<Rightarrow> Inr True))"
  using assms
  by (cases r3) (simp_all add: process_camera_view_try_def Let_def at_select_def)

lemma steps_camera_calls:
  "steps (take 1 (camera_calls config)) = []"
  "steps (take 4 (camera_calls config)) = [Select]"
  "steps (take 5 (camera_calls config)) = [Select, Bind]"
  "steps (camera_calls config) = [Select, Bind, Project]"
  by (simp_all add: steps_def camera_calls_def)

lemma process_camera_view_eq:
  "process_camera_view_try env config st = (st', r) \<Longrightarrow>
   process_camera_view env config st = (st', r = Inr True)"
  by (cases r) (auto simp: process_camera_view_def)

lemma per_camera_calls:
  assumes "process_camera_view env config (obj, w) = ((obj', w'), ok)"
  shows "(cameras w (name config) = None \<longrightarrow>
            new_calls w w' = take 1 (camera_calls config)
          \<and> steps (new_calls w w') = [] \<and> \<not> ok)
       \<and> (\<forall>camera o1 r.
            cameras w (name config) = Some camera
          \<and> select_faces_by_criteria (obj\<lparr>mode := EDIT\<rparr>) (selection_params config) = (o1, r) \<longrightarrow>
              ((r = Inr 0 \<or> (\<exists>e. r = Inl e)) \<longrightarrow>
                  new_calls w w' = take 4 (camera_calls config)
                \<and> steps (new_calls w w') = [Select] \<and> \<not> ok)
            \<and> ((\<exists>n. r = Inr n \<and> n \<noteq> 0) \<and> slots_refused env o1 (material_index config) \<longrightarrow>
                  new_calls w w' = take 5 (camera_calls config)
                \<and> steps (new_calls w w') = [Select, Bind] \<and> \<not> ok)
            \<and> ((\<exists>n. r = Inr n \<and> n \<noteq> 0) \<and> \<not> slots_refused env o1 (material_index config) \<longrightarrow>
                  new_calls w w' = camera_calls config
                \<and> steps (new_calls w w') = [Select, Bind, Project]))"
proof (intro conjI impI allI)
  assume n: "cameras w (name config) = None"
  from process_camera_view_eq [OF try_not_found [OF n, of env obj]] assms
  have "w' = record_call (ProcessCamera (name config)) w" and k: "\<not> ok"
    by simp_all
  then have c: "new_calls w w' = take 1 (camera_calls config)"
    by (simp add: new_calls_def camera_calls_def)
  show "new_calls w w' = take 1 (camera_calls config)" by (rule c)
  show "steps (new_calls w w') = []" by (simp only: c steps_camera_calls)
  show "\<not> ok" by (rule k)
next
  fix camera o1 r
  assume a: "cameras w (name config) = Some camera
          \<and> select_faces_by_criteria (obj\<lparr>mode := EDIT\<rparr>) (selection_params config) = (o1, r)"
  then have cam: "cameras w (name config) = Some camera"
    and sel: "select_faces_by_criteria (obj\<lparr>mode := EDIT\<rparr>) (selection_params config) = (o1, r)"
    by simp_all
  {
    assume "r = Inr 0 \<or> (\<exists>e. r = Inl e)"
    then have "w' = at_select config camera w \<and> \<not> ok"
    proof
      assume "r = Inr 0"
      with process_camera_view_eq [OF try_nothing_selected [OF cam, of obj o1 env]] sel assms
      show ?thesis by simp
    next
      assume "\<exists>e. r = Inl e"
      then obtain e where "r = Inl e" by blast
      with process_camera_view_eq [OF try_selector_raises [OF cam, of obj o1 e env]] sel assms
      show ?thesis by simp
    qed
    then have c: "new_calls w w' = take 4 (camera_calls config)" and k: "\<not> ok"
      by (simp_all add: new_calls_def calls_at_select)
    show "new_calls w w' = take 4 (camera_calls config)" by (rule c)
    show "steps (new_calls w w') = [Select]" by (simp only: c steps_camera_calls)
    show "\<not> ok" by (rule k)
  }
  obtain o2 w2 g where m: "setup_material_with_texture env (material_index config) (texture_path config)
            (DEFAULT_MATERIAL_BASENAME @ ''_'' @ name config)
            (o1, record_call (SetupMaterial (material_index config)) (at_select config camera w))
          = ((o2, w2), g)"
    by (metis surj_pair)
  have c2: "calls w2 = calls w @ take 5 (camera_calls config)"
    using setup_material_result(1) [OF m]
    by (simp add: calls_at_select camera_calls_def)
  have g: "(g \<noteq> None) = slots_refused env o1 (material_index config)"
    using setup_material_result(3) [OF m] .
  {
    assume b: "(\<exists>n. r = Inr n \<and> n \<noteq> 0) \<and> slots_refused env o1 (material_index config)"
    then obtain n where n: "r = Inr n" "n \<noteq> 0" by blast
    from b g obtain e where e: "g = Some e" by auto
    from process_camera_view_eq [OF try_setup_raises [OF cam sel [unfolded n(1)] n(2) m [unfolded e]]] assms
    have "w' = w2" and k: "\<not> ok"
      by simp_all
    then have c: "new_calls w w' = take 5 (camera_calls config)"
      by (simp add: new_calls_def c2)
    show "new_calls w w' = take 5 (camera_calls config)" by (rule c)
    show "steps (new_calls w w') = [Select, Bind]" by (simp only: c steps_camera_calls)
    show "\<not> ok" by (rule k)
  }
  {
    assume b: "(\<exists>n. r = Inr n \<and> n \<noteq> 0) \<and> \<not> slots_refused env o1 (material_index config)"
    then obtain n where n: "r = Inr n" "n \<noteq> 0" by blast
    from b g have e: "g = None" by auto
    obtain o3 r3 where p: "project_from_view_manual (matrix_inverted env)
            (material_slot_assign (o2\<lparr>active_material_index := material_index config\<rparr>)) camera
          = (o3, r3)"
      by (meson surj_pair)
    from process_camera_view_eq [OF try_projects [OF cam sel [unfolded n(1)] n(2) m [unfolded e] p]] assms
    have "w' = record_call (ProjectUV (name config))
                 (record_call (SlotAssign (material_index config)) w2)"
      by simp
    then have c: "new_calls w w' = camera_calls config"
      by (simp add: new_calls_def c2 camera_calls_def)
    show "new_calls w w' = camera_calls config" by (rule c)
    show "steps (new_calls w w') = [Select, Bind, Project]" by (simp only: c steps_camera_calls)
  }
qed

lemma process_camera_view_appends:
  assumes "process_camera_view env config (obj, w) = ((obj', w'), ok)"
  shows "calls w' = calls w @ new_calls w w'"
proof (cases "cameras w (name config)")
  case None
  from process_camera_view_eq [OF try_not_found [OF None, of env obj]] assms
  have "w' = record_call (ProcessCamera (name config)) w"
    by simp
  then show ?thesis
    by (simp add: new_calls_def)
next
  case (Some camera)
  note cam = Some
  obtain o1 r where sel: "select_faces_by_criteria (obj\<lparr>mode := EDIT\<rparr>) (selection_params config) = (o1, r)"
    by (metis surj_pair)
  obtain o2 w2 g where m: "setup_material_with_texture env (material_index config) (texture_path config)
            (DEFAULT_MATERIAL_BASENAME @ ''_'' @ name config)
            (o1, record_call (SetupMaterial (material_index config)) (at_select config camera w))
          = ((o2, w2), g)"
    by (metis surj_pair)
  have c2: "calls w2 = calls w @ take 5 (camera_calls config)"
    using setup_material_result(1) [OF m]
    by (simp add: calls_at_select camera_calls_def)
  obtain o3 r3 where p: "project_from_view_manual (matrix_inverted env)
          (material_slot_assign (o2\<lparr>active_material_index := material_index config\<rparr>)) camera
        = (o3, r3)"
    by (meson surj_pair)
  have "w' = at_select config camera w \<or> w' = w2
        \<or> w' = record_call (ProjectUV (name config)) (record_call (SlotAssign (material_index config)) w2)"
  proof (cases r)
    case (Inl e)
    from process_camera_view_eq [OF try_selector_raises [OF cam sel [unfolded Inl], of env]] assms
    show ?thesis by simp
  next
    case (Inr n)
    show ?thesis
    proof (cases "n = 0")
      case True
      from process_camera_view_eq [OF try_nothing_selected [OF cam sel [unfolded Inr True], of env]] assms
      show ?thesis by simp
    next
      case False
      show ?thesis
      proof (cases g)
        case None
        from process_camera_view_eq [OF try_projects [OF cam sel [unfolded Inr] False m [unfolded None] p]] assms
        show ?thesis by simp
      next
        case (Some e)
        from process_camera_view_eq [OF try_setup_raises [OF cam sel [unfolded Inr] False m [unfolded Some]]] assms
        show ?thesis by simp
      qed
    qed
  qed
  then show ?thesis
    by (auto simp: new_calls_def calls_at_select c2)
qed













lemma validate_loop_iff:
  "validate_loop env configs = (\<forall>c \<in> set configs. path_exists env (texture_path c))"
  by (induction configs) (auto simp: validate_def)

lemma validate_configs_iff:
  "validate_configs env input_ply configs =
     (path_exists env input_ply \<and> (\<forall>c \<in> set configs. path_exists env (texture_path c)))"
  by (simp add: validate_configs_def validate_loop_iff)

text \<open>
  Claim C5. When the input mesh file does not exist, or the texture of some configured camera
  does not exist, \<^verbatim>\<open>process\<close> returns False and \<^verbatim>\<open>main\<close> exits with code 1, and the scene is
  exactly as before: no object deleted or imported, no camera created, no image loaded,
  nothing exported and no operator called.
\<close>

theorem validation_failure_aborts:
  assumes "\<not> path_exists env input_ply \<or> (\<exists>c \<in> set configs. \<not> path_exists env (texture_path c))"
  shows "process env input_ply configs output_glb w = ((None, w), False)
       \<and> main env input_ply (Inr configs) output_glb w = ((None, w), 1)"
proof -
  have "\<not> validate_configs env input_ply configs"
    using assms by (auto simp: validate_configs_iff)
  then show ?thesis
    by (simp add: main_def process_def)
qed

theorem validation_failure_aborts_witness:
  "\<not> path_exists (example_env True) ''missing.png''
   \<and> main (example_env True) ''cube.ply'' (Inr [top_config ''max_coord'' ''missing.png'']) ''out.glb'' start_world
       = ((None, start_world), 1)
   \<and> \<not> path_exists (example_env True) ''missing.ply''
   \<and> main (example_env True) ''missing.ply'' (Inr [top_config ''max_coord'' ''top.png'']) ''out.glb'' start_world
       = ((None, start_world), 1)"
proof -
  have a: "\<not> path_exists (example_env True) ''missing.png''"
    and b: "\<not> path_exists (example_env True) ''missing.ply''"
    by (simp_all add: example_env_def)
  have t: "texture_path (top_config ''max_coord'' ''missing.png'') = ''missing.png''"
    by (simp add: top_config_def)
  from validation_failure_aborts [of "example_env True" "''cube.ply''" "[top_config ''max_coord'' ''missing.png'']"
         "''out.glb''" start_world]
       validation_failure_aborts [of "example_env True" "''missing.ply''" "[top_config ''max_coord'' ''top.png'']"
         "''out.glb''" start_world]
       a b t
  show ?thesis by simp
qed

lemma camera_runs_append: "camera_runs (xs @ ys) = camera_runs xs @ camera_runs ys"
  by (induction xs rule: camera_runs.induct) simp_all

lemma camera_runs_camera_calls:
  "camera_runs (take 1 (camera_calls config)) = [name config]"
  "camera_runs (take 4 (camera_calls config)) = [name config]"
  "camera_runs (take 5 (camera_calls config)) = [name config]"
  "camera_runs (camera_calls config) = [name config]"
  by (simp_all add: camera_calls_def)

lemma process_camera_view_runs:
  assumes "process_camera_view env config (obj, w) = ((obj', w'), ok)"
  shows "\<exists>mid. calls w' = calls w @ mid \<and> camera_runs mid = [name config]"
proof -
  have "camera_runs (new_calls w w') = [name config]"
  proof (cases "cameras w (name config)")
    case None
    with per_camera_calls [OF assms] have "new_calls w w' = take 1 (camera_calls config)"
      by blast
    then show ?thesis
      by (simp only: camera_runs_camera_calls)
  next
    case (Some camera)
    obtain o1 r where sel: "select_faces_by_criteria (obj\<lparr>mode := EDIT\<rparr>) (selection_params config) = (o1, r)"
      by (metis surj_pair)
    note k = per_camera_calls [OF assms, THEN conjunct2, rule_format, of camera o1 r, OF conjI [OF Some sel]]
    have "r = Inr 0 \<or> (\<exists>e. r = Inl e) \<or> (\<exists>n. r = Inr n \<and> n \<noteq> 0)"
      by (cases r) auto
    with k have "new_calls w w' = take 4 (camera_calls config)
               \<or> new_calls w w' = take 5 (camera_calls config)
               \<or> new_calls w w' = camera_calls config"
      by blast
    then show ?thesis
      using camera_runs_camera_calls [of config] by metis
  qed
  with process_camera_view_appends [OF assms] show ?thesis
    by blast
qed

lemma process_cameras_runs:
  "\<exists>mid. calls (snd (process_cameras env configs (obj, w))) = calls w @ mid
         \<and> camera_runs mid = map name configs"
proof (induction configs arbitrary: obj w)
  case Nil
  show ?case by simp
next
  case (Cons config configs)
  obtain obj1 w1 ok where p: "process_camera_view env config (obj, w) = ((obj1, w1), ok)"
    by (metis prod.collapse)
  from process_camera_view_runs [OF p] obtain m1 where
    m1: "calls w1 = calls w @ m1" "camera_runs m1 = [name config]"
    by blast
  from Cons.IH [of obj1 w1] obtain m2 where
    m2: "calls (snd (process_cameras env configs (obj1, w1))) = calls w1 @ m2"
        "camera_runs m2 = map name configs"
    by blast
  have "calls (snd (process_cameras env (config # configs) (obj, w))) = calls w @ (m1 @ m2)"
    using p m1 m2 by simp
  moreover have "camera_runs (m1 @ m2) = map name (config # configs)"
    using m1 m2 by (simp add: camera_runs_append)
  ultimately show ?case by blast
qed

lemma main_after_setup:
  assumes v: "validate_configs env input_ply configs"
    and s: "setup_scene env input_ply configs w = (w1, Some mesh_obj)"
  shows "\<exists>obj' w' mid.
           main env input_ply (Inr configs) output_glb w
             = ((Some obj', w'), if export_gltf env output_glb then 0 else 1)
         \<and> calls w' = calls w1 @ mid @ [ModeSet OBJECT, ExportGltf output_glb]
         \<and> camera_runs mid = map name configs"
proof -
  obtain obj2 w2 where c: "process_cameras env configs (mesh_obj, w1) = (obj2, w2)"
    by (metis prod.collapse)
  from process_cameras_runs [of env configs mesh_obj w1] c obtain mid where
    mid: "calls w2 = calls w1 @ mid" "camera_runs mid = map name configs"
    by auto
  show ?thesis
  proof (cases "export_gltf env output_glb")
    case True
    then show ?thesis
      using v s c mid
      by (simp add: main_def process_def Let_def)
  next
    case False
    then show ?thesis
      using v s c mid
      by (simp add: main_def process_def Let_def)
  qed
qed

text \<open>
  Claim C6, as the code has it. When validation passes and the scene is set up, every
  configured camera is processed, in order, whatever each of them returns; then the object
  mode is restored and the export is called. The exit code is 0 when the export call does not
  raise, and 1 when it does.
\<close>

theorem batch_reaches_export:
  assumes v: "validate_configs env input_ply configs"
    and s: "setup_scene env input_ply configs w = (w1, Some mesh_obj)"
  shows "\<exists>obj' w' mid.
           main env input_ply (Inr configs) output_glb w
             = ((Some obj', w'), if export_gltf env output_glb then 0 else 1)
         \<and> calls w' = calls w1 @ mid @ [ModeSet OBJECT, ExportGltf output_glb]
         \<and> camera_runs mid = map name configs"
  using main_after_setup [OF v s] .

lemma process_camera_view_fails:
  assumes "process_camera_view env config (obj, w) = ((obj', w'), ok)"
    and "select_faces_by_criteria (obj\<lparr>mode := EDIT\<rparr>) (selection_params config) = (o1, r)"
    and "r = Inr 0 \<or> (\<exists>e. r = Inl e)"
  shows "\<not> ok"
proof (cases "cameras w (name config)")
  case None
  with per_camera_calls [OF assms(1)] show ?thesis
    by blast
next
  case (Some camera)
  from per_camera_calls [OF assms(1), THEN conjunct2, rule_format, of camera o1 r,
         OF conjI [OF Some assms(2)]] assms(3)
  show ?thesis
    by blast
qed

lemma process_camera_view_bad_axis:
  assumes "\<not> valid_axis (coord (selection_params config))"
  shows "\<not> snd (process_camera_view env config (obj, w))"
proof -
  obtain obj' w' ok where p: "process_camera_view env config (obj, w) = ((obj', w'), ok)"
    by (metis prod.collapse)
  have "mode (obj\<lparr>mode := EDIT\<rparr>) = EDIT"
    by simp
  from process_camera_view_fails [OF p select_bad_axis [OF this assms]]
  show ?thesis
    by (simp add: p)
qed

lemma process_camera_view_other_type:
  assumes "type (selection_params config) \<noteq> ''max_coord''"
    and "type (selection_params config) \<noteq> ''min_coord''"
  shows "\<not> snd (process_camera_view env config (obj, w))"
proof (cases "valid_axis (coord (selection_params config))")
  case True
  obtain obj' w' ok where p: "process_camera_view env config (obj, w) = ((obj', w'), ok)"
    by (metis prod.collapse)
  have "mode (obj\<lparr>mode := EDIT\<rparr>) = EDIT"
    by simp
  from process_camera_view_fails [OF p select_other_result [OF this True assms]]
  show ?thesis
    by (simp add: p)
next
  case False
  then show ?thesis
    by (rule process_camera_view_bad_axis)
qed

lemma example_validates:
  "validate_configs (example_env b) ''cube.ply'' example_configs"
  "validate_configs (example_env b) ''cube.ply'' [top_config ''max_coord'' ''top.png'']"
  by (simp_all add: validate_configs_def validate_def example_env_def example_configs_def
        example_config_def top_config_def)

lemma first_mesh_append:
  "first_mesh os = Some (m, r) \<Longrightarrow> first_mesh (os @ xs) = Some (m, r @ xs)"
  by (induction os arbitrary: r rule: first_mesh.induct) (auto split: option.splits)

lemma first_mesh_add_cameras:
  "first_mesh (objects w) = Some (m, r) \<Longrightarrow>
   \<exists>r'. first_mesh (objects (add_cameras env cs w)) = Some (m, r')"
proof (induction cs arbitrary: w r)
  case Nil
  then show ?case by simp
next
  case (Cons c cs)
  let ?cam = "fst (add_camera env (name c) (location c) (rotation c) w)"
  let ?w = "(snd (add_camera env (name c) (location c) (rotation c) w))\<lparr>cameras :=
               (cameras (snd (add_camera env (name c) (location c) (rotation c) w)))(name c \<mapsto> ?cam)\<rparr>"
  have "first_mesh (objects ?w) = Some (m, r @ [(True, CameraObject ?cam)])"
    using first_mesh_append [OF Cons.prems]
    by (simp add: add_camera_def record_call_def Let_def)
  from Cons.IH [OF this] show ?case
    by (simp add: case_prod_beta)
qed

lemma example_setup:
  "snd (setup_scene (example_env b) ''cube.ply'' configs start_world) = Some (cube False True True)"
proof -
  let ?w = "(record_call (PlyImport ''cube.ply'') (record_call DeleteAll (start_world\<lparr>objects := []\<rparr>)))
              \<lparr>objects := [(True, MeshObject (cube False True True))]\<rparr>"
  have "first_mesh (objects ?w) = Some (cube False True True, [])"
    by simp
  from first_mesh_add_cameras [OF this, of "example_env b" configs]
  obtain r' where "first_mesh (objects (add_cameras (example_env b) configs ?w))
                     = Some (cube False True True, r')"
    by blast
  moreover have "uv_layers (cube False True True) \<noteq> []"
    by (simp add: cube_def cube_with_def)
  moreover have "ply_import (example_env b) ''cube.ply'' = Inr [cube False True True]"
    by (simp add: example_env_def)
  moreover have "filter (\<lambda>(s, ob). \<not> s) (objects start_world) = []"
    by (simp add: start_world_def)
  moreover have "objects (record_call (PlyImport ''cube.ply'')
                    (record_call DeleteAll (start_world\<lparr>objects := []\<rparr>))) = []"
    by (simp add: record_call_def)
  ultimately show ?thesis
    by (simp add: setup_scene_def Let_def)
qed

text \<open>
  Claim C6 as stated promises exit code 0 after validation and scene setup. It fails when the
  export call raises: the exception is caught in \<^verbatim>\<open>process\<close>, which returns False.
\<close>

theorem export_failure_counterexample:
  "validate_configs (example_env False) ''cube.ply'' [top_config ''max_coord'' ''top.png'']
   \<and> snd (setup_scene (example_env False) ''cube.ply'' [top_config ''max_coord'' ''top.png''] start_world)
       = Some (cube False True True)
   \<and> last (calls (snd (fst (main (example_env False) ''cube.ply''
                 (Inr [top_config ''max_coord'' ''top.png'']) ''out.glb'' start_world))))
       = ExportGltf ''out.glb''
   \<and> snd (main (example_env False) ''cube.ply'' (Inr [top_config ''max_coord'' ''top.png'']) ''out.glb''
            start_world) = 1"
proof -
  let ?cs = "[top_config ''max_coord'' ''top.png'']"
  obtain w1 where s: "setup_scene (example_env False) ''cube.ply'' ?cs start_world
                        = (w1, Some (cube False True True))"
    using example_setup [of False ?cs]
    by (metis prod.collapse)
  have e: "\<not> export_gltf (example_env False) ''out.glb''"
    by (simp add: example_env_def)
  from main_after_setup [OF example_validates(2) s, of "''out.glb''"] e
  obtain obj' w' mid where
    m: "main (example_env False) ''cube.ply'' (Inr ?cs) ''out.glb'' start_world = ((Some obj', w'), 1)"
    and c: "calls w' = calls w1 @ mid @ [ModeSet OBJECT, ExportGltf ''out.glb'']"
    by auto
  have "last (calls w') = ExportGltf ''out.glb''"
    using c by simp
  then show ?thesis
    using m example_validates(2) [of False] example_setup [of False ?cs]
    by simp
qed

theorem batch_reaches_export_witness:
  "validate_configs (example_env True) ''cube.ply'' example_configs
   \<and> snd (setup_scene (example_env True) ''cube.ply'' example_configs start_world)
       = Some (cube False True True)
   \<and> (\<forall>st. \<not> snd (process_camera_view (example_env True) (example_configs ! 0) st))
   \<and> (\<forall>st. \<not> snd (process_camera_view (example_env True) (example_configs ! 1) st))
   \<and> snd (main (example_env True) ''cube.ply'' (Inr example_configs) ''out.glb'' start_world) = 0
   \<and> camera_runs (drop 5 (calls (snd (fst (main (example_env True) ''cube.ply'' (Inr example_configs)
                                    ''out.glb'' start_world)))))
       = [''Camera_A'', ''Camera_B'', ''Camera_Top'']
   \<and> last (calls (snd (fst (main (example_env True) ''cube.ply'' (Inr example_configs)
                                    ''out.glb'' start_world)))) = ExportGltf ''out.glb''"
proof -
  let ?w1 = "fst (setup_scene (example_env True) ''cube.ply'' example_configs start_world)"
  let ?m = "main (example_env True) ''cube.ply'' (Inr example_configs) ''out.glb'' start_world"
  have s: "setup_scene (example_env True) ''cube.ply'' example_configs start_world
            = (?w1, Some (cube False True True))"
    using example_setup [of True example_configs] by (metis prod.collapse)
  have c1: "calls ?w1 = [DeleteAll, PlyImport ''cube.ply'', CameraAdd ''Camera_A'',
                         CameraAdd ''Camera_B'', CameraAdd ''Camera_Top'']"
    by (simp add: setup_scene_def Let_def example_env_def start_world_def record_call_def
          example_configs_def example_config_def top_config_def add_camera_def cube_def cube_with_def)
  have e: "export_gltf (example_env True) ''out.glb''"
    by (simp add: example_env_def)
  have a: "\<not> snd (process_camera_view (example_env True) (example_configs ! 0) st)" for st
    using process_camera_view_bad_axis [of "example_configs ! 0" "example_env True" "fst st" "snd st"]
    by (simp add: example_configs_def example_config_def valid_axis_def)
  have b: "\<not> snd (process_camera_view (example_env True) (example_configs ! 1) st)" for st
    using process_camera_view_other_type [of "example_configs ! 1" "example_env True" "fst st" "snd st"]
    by (simp add: example_configs_def example_config_def params_def)
  have n: "map name example_configs = [''Camera_A'', ''Camera_B'', ''Camera_Top'']"
    by (simp add: example_configs_def example_config_def top_config_def)
  from batch_reaches_export [OF example_validates(1) s, of "''out.glb''"] e
  obtain obj' w' mid where
    m: "?m = ((Some obj', w'), 0)"
    and c: "calls w' = calls ?w1 @ mid @ [ModeSet OBJECT, ExportGltf ''out.glb'']"
    and r: "camera_runs mid = map name example_configs"
    by auto
  have "drop 5 (calls w') = mid @ [ModeSet OBJECT, ExportGltf ''out.glb'']"
    using c c1 by simp
  then have "camera_runs (drop 5 (calls w')) = [''Camera_A'', ''Camera_B'', ''Camera_Top'']"
    using r n by (simp add: camera_runs_append)
  moreover have "last (calls w') = ExportGltf ''out.glb''"
    using c by simp
  ultimately show ?thesis
    using example_validates(1) [of True] example_setup [of True example_configs] a b m
    by simp
qed

end
